theory Spec2Isabelle
  imports Main "HOL-Library.Sublist"
begin

section \<open>Values, errors and the outside world\<close>

text \<open>
  The disk export of Lago (\<^verbatim>\<open>lago/export.py\<close>) is a sequence of calls that change the
  file system and one Python dictionary. The model threads a \<open>world\<close> through every call:
  the file system, the heap of dictionary objects, and the list of external calls made so
  far. Every exception of the source is a value \<open>Raise e\<close>. The \<^verbatim>\<open>LogTask\<close> blocks only
  write to the log and are left out.
\<close>

datatype jval =
    JNull
  | JBool bool
  | JInt int
  | JStr string
  | JList "jval list"
  | JObj "(string \<times> jval) list"

type_synonym pydict = "string \<rightharpoonup> jval"

datatype error =
    LagoUserException string
  | KeyError string
  | IndexError
  | AttributeError
  | OSError string
  | IOError string
  | ToolError string

datatype 'a res = Ok 'a | Raise error

datatype node = File string | Dir

type_synonym filesystem = "string \<rightharpoonup> node"

text \<open>One event per call that leaves the Python process or touches the file system.\<close>

datatype event =
    EvCp string string
  | EvSparse string string
  | EvQemuInfo string bool
  | EvQemuRebase string string "bool option"
  | EvGetHash string string
  | EvCompress string nat
  | EvOpenW string
  | EvWrite string string
  | EvStat string
  | EvUnlink string
  | EvRmtree string bool

record world =
  fs :: filesystem
  heap :: "pydict list"
  trace :: "event list"

text \<open>
  The helpers of \<^verbatim>\<open>lago.utils\<close> (\<^verbatim>\<open>cp\<close>, \<^verbatim>\<open>sparse\<close>, \<^verbatim>\<open>qemu_rebase\<close>, \<^verbatim>\<open>get_hash\<close>,
  \<^verbatim>\<open>compress\<close>, \<^verbatim>\<open>get_qemu_info\<close>) run external tools and are not part of
  \<^verbatim>\<open>export.py\<close>: they are parameters, any fallible function on the file system. So are
  the parts of the standard library whose result depends on the process environment:
  \<^verbatim>\<open>os.path.expandvars\<close>, \<^verbatim>\<open>time.strftime\<close>, the text \<^verbatim>\<open>json.dump\<close> produces, the size
  the operating system reports for a directory, and whether it refuses to open a path for
  writing. \<^verbatim>\<open>qemu_rebase\<close> receives \<open>None\<close> for \<open>safe\<close> when the caller leaves the keyword out.
\<close>

record env =
  expandvars :: "string \<Rightarrow> string"
  strftime :: "string \<Rightarrow> string"
  json_dumps :: "pydict \<Rightarrow> string"
  dir_st_size :: int
  open_denied :: "string \<Rightarrow> filesystem \<Rightarrow> bool"
  x_cp :: "string \<Rightarrow> string \<Rightarrow> filesystem \<Rightarrow> unit res \<times> filesystem"
  x_sparse :: "string \<Rightarrow> string \<Rightarrow> filesystem \<Rightarrow> unit res \<times> filesystem"
  x_qemu_rebase :: "string \<Rightarrow> string \<Rightarrow> bool option \<Rightarrow> filesystem \<Rightarrow> unit res \<times> filesystem"
  x_get_hash :: "string \<Rightarrow> string \<Rightarrow> filesystem \<Rightarrow> string res"
  x_compress :: "string \<Rightarrow> nat \<Rightarrow> filesystem \<Rightarrow> unit res \<times> filesystem"
  x_get_qemu_info :: "string \<Rightarrow> bool \<Rightarrow> filesystem \<Rightarrow> pydict list res"

type_synonym step = "world \<Rightarrow> unit res \<times> world"

definition emit :: "event \<Rightarrow> world \<Rightarrow> world" where
  "emit e w = w\<lparr>trace := trace w @ [e]\<rparr>"

subsection \<open>The calls into \<^verbatim>\<open>lago.utils\<close>\<close>

definition utils_cp :: "env \<Rightarrow> string \<Rightarrow> string \<Rightarrow> step" where
  "utils_cp E s d w =
     (let w1 = emit (EvCp s d) w; (r, f) = x_cp E s d (fs w1) in (r, w1\<lparr>fs := f\<rparr>))"

definition utils_sparse :: "env \<Rightarrow> string \<Rightarrow> string \<Rightarrow> step" where
  "utils_sparse E p fmt w =
     (let w1 = emit (EvSparse p fmt) w; (r, f) = x_sparse E p fmt (fs w1) in (r, w1\<lparr>fs := f\<rparr>))"

definition utils_qemu_rebase :: "env \<Rightarrow> string \<Rightarrow> string \<Rightarrow> bool option \<Rightarrow> step" where
  "utils_qemu_rebase E target backing_file safe w =
     (let w1 = emit (EvQemuRebase target backing_file safe) w;
          (r, f) = x_qemu_rebase E target backing_file safe (fs w1)
      in (r, w1\<lparr>fs := f\<rparr>))"

definition utils_get_hash :: "env \<Rightarrow> string \<Rightarrow> string \<Rightarrow> world \<Rightarrow> string res \<times> world" where
  "utils_get_hash E p checksum w =
     (let w1 = emit (EvGetHash p checksum) w in (x_get_hash E p checksum (fs w1), w1))"

definition utils_compress :: "env \<Rightarrow> string \<Rightarrow> nat \<Rightarrow> step" where
  "utils_compress E p block_size w =
     (let w1 = emit (EvCompress p block_size) w; (r, f) = x_compress E p block_size (fs w1)
      in (r, w1\<lparr>fs := f\<rparr>))"

definition utils_get_qemu_info ::
  "env \<Rightarrow> string \<Rightarrow> bool \<Rightarrow> world \<Rightarrow> pydict list res \<times> world" where
  "utils_get_qemu_info E p backing_chain w =
     (let w1 = emit (EvQemuInfo p backing_chain) w
      in (x_get_qemu_info E p backing_chain (fs w1), w1))"

subsection \<open>The standard library\<close>

text \<open>\<^verbatim>\<open>os.path.basename\<close>: the text after the last slash.\<close>

definition basename :: "string \<Rightarrow> string" where
  "basename p = rev (takeWhile (\<lambda>c. c \<noteq> CHR ''/'') (rev p))"

text \<open>\<^verbatim>\<open>os.path.join\<close> of two components.\<close>

definition path_join :: "string \<Rightarrow> string \<Rightarrow> string" where
  "path_join a b =
     (if b \<noteq> [] \<and> hd b = CHR ''/'' then b
      else if a = [] \<or> last a = CHR ''/'' then a @ b
      else a @ ''/'' @ b)"

text \<open>
  \<^verbatim>\<open>s.split(':', 1)[1]\<close>: the text after the first colon; \<^verbatim>\<open>IndexError\<close> when \<open>s\<close> has
  no colon, since the split then has one element only.
\<close>

definition split_colon_1 :: "string \<Rightarrow> string res" where
  "split_colon_1 s =
     (case dropWhile (\<lambda>c. c \<noteq> CHR '':'') s of
        [] \<Rightarrow> Raise IndexError
      | _ # rest \<Rightarrow> Ok rest)"

text \<open>
  \<^verbatim>\<open>open(p, 'wt')\<close> creates the file or truncates it. It fails on a directory and
  wherever the operating system refuses.
\<close>

definition py_open_w :: "env \<Rightarrow> string \<Rightarrow> step" where
  "py_open_w E p w =
     (let w1 = emit (EvOpenW p) w
      in if fs w1 p = Some Dir \<or> open_denied E p (fs w1) then (Raise (IOError p), w1)
         else (Ok (), w1\<lparr>fs := (fs w1)(p \<mapsto> File [])\<rparr>))"

text \<open>\<^verbatim>\<open>f.write(s)\<close> on a file opened at \<open>p\<close>: the text is appended.\<close>

definition file_write :: "string \<Rightarrow> string \<Rightarrow> world \<Rightarrow> world" where
  "file_write p s w =
     (let w1 = emit (EvWrite p s) w;
          old = (case fs w1 p of Some (File b) \<Rightarrow> b | _ \<Rightarrow> [])
      in w1\<lparr>fs := (fs w1)(p \<mapsto> File (old @ s))\<rparr>)"

text \<open>\<^verbatim>\<open>os.stat(p).st_size\<close>.\<close>

fun st_size :: "env \<Rightarrow> node \<Rightarrow> int" where
  "st_size E (File b) = int (length b)"
| "st_size E Dir = dir_st_size E"

definition os_stat_size :: "env \<Rightarrow> string \<Rightarrow> world \<Rightarrow> int res \<times> world" where
  "os_stat_size E p w =
     (let w1 = emit (EvStat p) w
      in case fs w1 p of
           None \<Rightarrow> (Raise (OSError p), w1)
         | Some nd \<Rightarrow> (Ok (st_size E nd), w1))"

text \<open>\<^verbatim>\<open>os.unlink(p)\<close> removes a file; it fails on a directory and on a missing path.\<close>

definition os_unlink :: "string \<Rightarrow> step" where
  "os_unlink p w =
     (let w1 = emit (EvUnlink p) w
      in case fs w1 p of
           Some (File b) \<Rightarrow> (Ok (), w1\<lparr>fs := (fs w1)(p := None)\<rparr>)
         | _ \<Rightarrow> (Raise (OSError p), w1))"

text \<open>
  \<^verbatim>\<open>shutil.rmtree(p, ignore_errors)\<close> deletes a directory tree: it lists \<open>p\<close>, removes
  what is below it and then \<open>p\<close> itself with \<^verbatim>\<open>os.rmdir\<close>. On a path that is a regular
  file, or that does not exist, both the listing and \<^verbatim>\<open>os.rmdir\<close> fail; with
  \<^verbatim>\<open>ignore_errors=True\<close> the failures are dropped and nothing is removed.
\<close>

definition below :: "string \<Rightarrow> string \<Rightarrow> bool" where
  "below p q = (take (length p + 1) q = p @ ''/'' )"

text \<open>
  The file system is keyed by paths that do not end in a slash. The operating system
  takes a path that ends in slashes for the directory of that name, so \<^verbatim>\<open>rmtree\<close> of
  \<^verbatim>\<open>/out/\<close> deletes the directory \<^verbatim>\<open>/out\<close>.
\<close>

definition rstrip_slash :: "string \<Rightarrow> string" where
  "rstrip_slash p = rev (dropWhile (\<lambda>c. c = CHR ''/'') (rev p))"

definition shutil_rmtree :: "string \<Rightarrow> bool \<Rightarrow> step" where
  "shutil_rmtree p ignore_errors w =
     (let w1 = emit (EvRmtree p ignore_errors) w; d = rstrip_slash p
      in case fs w1 d of
           Some Dir \<Rightarrow> (Ok (), w1\<lparr>fs := (\<lambda>q. if q = d \<or> below d q then None else fs w1 q)\<rparr>)
         | _ \<Rightarrow> (if ignore_errors then (Ok (), w1) else (Raise (OSError p), w1)))"

text \<open>
  \<^verbatim>\<open>d[k] = v\<close> on the dictionary object at address \<open>a\<close>, and \<^verbatim>\<open>copy.deepcopy\<close> of a
  dictionary of JSON values: a new object with the same content. An address is an index
  into the heap; a new object is appended.
\<close>

definition dict_setitem :: "nat \<Rightarrow> string \<Rightarrow> jval \<Rightarrow> world \<Rightarrow> world" where
  "dict_setitem a k v w = w\<lparr>heap := (heap w)[a := (heap w ! a)(k \<mapsto> v)]\<rparr>"

definition deepcopy :: "nat \<Rightarrow> world \<Rightarrow> nat \<times> world" where
  "deepcopy a w = (length (heap w), w\<lparr>heap := heap w @ [heap w ! a]\<rparr>)"

section \<open>The export managers\<close>

text \<open>
  The disk attributes are a dictionary with the keys \<^verbatim>\<open>path\<close>, \<^verbatim>\<open>type\<close>, \<^verbatim>\<open>format\<close>
  (strings) and \<^verbatim>\<open>metadata\<close> (a reference to a dictionary object). A key that is absent
  is \<open>None\<close>; reading it raises \<^verbatim>\<open>KeyError\<close>.
\<close>

record disk_spec =
  d_path :: "string option"
  d_type :: "string option"
  d_format :: "string option"
  d_metadata :: "nat option"

text \<open>
  The two subclasses of \<^verbatim>\<open>DiskExportManager\<close>. \<open>standalone\<close> and \<open>src_qemu_info\<close> are
  attributes of the template manager only.
\<close>

datatype mkind =
    FileExportManager
  | TemplateExportManager bool "pydict list"

record manager =
  src :: string
  name :: string
  dst :: string
  dist_type :: string
  disk :: disk_spec
  exported_metadata :: nat
  do_compress :: bool
  kind :: mkind

datatype handler = FileHandler | TemplateHandler

text \<open>The table \<^verbatim>\<open>HANDLERS\<close>.\<close>

definition HANDLERS :: "string \<rightharpoonup> handler" where
  "HANDLERS = [''file'' \<mapsto> FileHandler, ''empty'' \<mapsto> FileHandler, ''template'' \<mapsto> TemplateHandler]"

text \<open>\<^verbatim>\<open>DiskExportManager.__init__\<close>; the subclass adds its \<open>kind\<close> afterwards.\<close>

definition DiskExportManager_init ::
  "env \<Rightarrow> string \<Rightarrow> string \<Rightarrow> disk_spec \<Rightarrow> bool \<Rightarrow> world \<Rightarrow> manager res \<times> world" where
  "DiskExportManager_init E dst_arg disk_type dsk compress_arg w =
     (case d_path dsk of
        None \<Rightarrow> (Raise (KeyError ''path''), w)
      | Some p \<Rightarrow>
          (let src_v = expandvars E p;
               name_v = basename src_v;
               dst_v = path_join (expandvars E dst_arg) name_v
           in case d_metadata dsk of
                None \<Rightarrow> (Raise (KeyError ''metadata''), w)
              | Some a \<Rightarrow>
                  (let (a', w1) = deepcopy a w
                   in (Ok \<lparr>src = src_v, name = name_v, dst = dst_v, dist_type = disk_type,
                            disk = dsk, exported_metadata = a', do_compress = compress_arg,
                            kind = FileExportManager\<rparr>, w1))))"

definition FileExportManager_init ::
  "env \<Rightarrow> string \<Rightarrow> string \<Rightarrow> disk_spec \<Rightarrow> bool \<Rightarrow> (string \<rightharpoonup> bool) \<Rightarrow> world
     \<Rightarrow> manager res \<times> world" where
  "FileExportManager_init E dst_arg disk_type dsk compress_arg kwargs w =
     DiskExportManager_init E dst_arg disk_type dsk compress_arg w"

definition TemplateExportManager_init ::
  "env \<Rightarrow> string \<Rightarrow> string \<Rightarrow> disk_spec \<Rightarrow> bool \<Rightarrow> (string \<rightharpoonup> bool) \<Rightarrow> world
     \<Rightarrow> manager res \<times> world" where
  "TemplateExportManager_init E dst_arg disk_type dsk compress_arg kwargs w =
     (case DiskExportManager_init E dst_arg disk_type dsk compress_arg w of
        (Raise e, w1) \<Rightarrow> (Raise e, w1)
      | (Ok m, w1) \<Rightarrow>
          (case kwargs ''standalone'' of
             None \<Rightarrow> (Raise (KeyError ''standalone''), w1)
           | Some sa \<Rightarrow>
               (case utils_get_qemu_info E (src m) True w1 of
                  (Raise e, w2) \<Rightarrow> (Raise e, w2)
                | (Ok info, w2) \<Rightarrow> (Ok (m\<lparr>kind := TemplateExportManager sa info\<rparr>), w2))))"

definition get_instance_by_type ::
  "env \<Rightarrow> string \<Rightarrow> disk_spec \<Rightarrow> bool \<Rightarrow> (string \<rightharpoonup> bool) \<Rightarrow> world \<Rightarrow> manager res \<times> world" where
  "get_instance_by_type E dst_arg dsk compress_arg kwargs w =
     (case d_type dsk of
        None \<Rightarrow> (Raise (KeyError ''type''), w)
      | Some disk_type \<Rightarrow>
          (case HANDLERS disk_type of
             None \<Rightarrow>
               (Raise (LagoUserException (''Export is not supported for disk type '' @ disk_type)), w)
           | Some FileHandler \<Rightarrow>
               FileExportManager_init E dst_arg disk_type dsk compress_arg kwargs w
           | Some TemplateHandler \<Rightarrow>
               TemplateExportManager_init E dst_arg disk_type dsk compress_arg kwargs w))"

subsection \<open>The steps\<close>

definition copy :: "env \<Rightarrow> manager \<Rightarrow> step" where
  "copy E m w = utils_cp E (src m) (dst m) w"

definition sparse :: "env \<Rightarrow> manager \<Rightarrow> step" where
  "sparse E m w =
     (case d_format (disk m) of
        None \<Rightarrow> (Raise (KeyError ''format''), w)
      | Some fmt \<Rightarrow> utils_sparse E (dst m) fmt w)"

definition calc_sha :: "env \<Rightarrow> manager \<Rightarrow> string \<Rightarrow> step" where
  "calc_sha E m checksum w =
     (case py_open_w E (dst m @ ''.hash'') w of
        (Raise e, w1) \<Rightarrow> (Raise e, w1)
      | (Ok u, w1) \<Rightarrow>
          (case utils_get_hash E (dst m) checksum w1 of
             (Raise e, w2) \<Rightarrow> (Raise e, w2)
           | (Ok sha, w2) \<Rightarrow>
               (Ok (), dict_setitem (exported_metadata m) checksum (JStr sha)
                         (file_write (dst m @ ''.hash'') sha w2))))"

definition compress :: "env \<Rightarrow> manager \<Rightarrow> step" where
  "compress E m w =
     (if \<not> do_compress m then (Ok (), w)
      else (case utils_compress E (dst m) 16777216 w of
              (Raise e, w1) \<Rightarrow> (Raise e, w1)
            | (Ok u, w1) \<Rightarrow> os_unlink (dst m) w1))"

definition DiskExportManager_update_lago_metadata :: "env \<Rightarrow> manager \<Rightarrow> step" where
  "DiskExportManager_update_lago_metadata E m w =
     (case os_stat_size E (dst m) w of
        (Raise e, w1) \<Rightarrow> (Raise e, w1)
      | (Ok sz, w1) \<Rightarrow>
          (Ok (), dict_setitem (exported_metadata m) ''version'' (JStr (strftime E ''%Y%m%d.0''))
                    (dict_setitem (exported_metadata m) ''name'' (JStr (name m))
                       (dict_setitem (exported_metadata m) ''size'' (JInt sz) w1))))"

definition write_lago_metadata :: "env \<Rightarrow> manager \<Rightarrow> step" where
  "write_lago_metadata E m w =
     (case py_open_w E (dst m @ ''.metadata'') w of
        (Raise e, w1) \<Rightarrow> (Raise e, w1)
      | (Ok u, w1) \<Rightarrow>
          (Ok (), file_write (dst m @ ''.metadata'')
                    (json_dumps E (heap w1 ! exported_metadata m)) w1))"

text \<open>
  \<^verbatim>\<open>TemplateExportManager.rebase\<close>. The backing file name is read from element 0 of the
  chain; a value that is not a string has no \<^verbatim>\<open>split\<close>.
\<close>

definition rebase :: "env \<Rightarrow> manager \<Rightarrow> step" where
  "rebase E m w =
     (case kind m of
        FileExportManager \<Rightarrow> (Raise AttributeError, w)
      | TemplateExportManager standalone src_qemu_info \<Rightarrow>
          (if length src_qemu_info = 1 then (Ok (), w)
           else if standalone then utils_qemu_rebase E (dst m) [] None w
           else if length src_qemu_info > 2 then
             (Raise (LagoUserException
                (''Layered export is currently supported for one '' @
                 ''layer only.  You can try to use Standalone export.'')), w)
           else
             (case src_qemu_info of
                [] \<Rightarrow> (Raise IndexError, w)
              | q0 # qs \<Rightarrow>
                  (case q0 ''backing-filename'' of
                     None \<Rightarrow> (Raise (KeyError ''backing-filename''), w)
                   | Some (JStr parent) \<Rightarrow>
                       (case split_colon_1 parent of
                          Raise e \<Rightarrow> (Raise e, w)
                        | Ok rest \<Rightarrow>
                            utils_qemu_rebase E (dst m) (''./'' @ basename rest) (Some False) w)
                   | Some other \<Rightarrow> (Raise AttributeError, w)))))"

definition TemplateExportManager_update_lago_metadata :: "env \<Rightarrow> manager \<Rightarrow> step" where
  "TemplateExportManager_update_lago_metadata E m w =
     (case DiskExportManager_update_lago_metadata E m w of
        (Raise e, w1) \<Rightarrow> (Raise e, w1)
      | (Ok u, w1) \<Rightarrow>
          (case kind m of
             FileExportManager \<Rightarrow> (Raise AttributeError, w1)
           | TemplateExportManager standalone src_qemu_info \<Rightarrow>
               (if standalone
                then (Ok (), dict_setitem (exported_metadata m) ''base'' (JStr ''None'') w1)
                else (Ok (), dict_setitem (exported_metadata m) ''base''
                               (JStr (basename (src m))) w1))))"

subsection \<open>The rollback context\<close>

text \<open>
  Modelled from the spec: \<^verbatim>\<open>utils.RollbackContext\<close> is not part of \<^verbatim>\<open>export.py\<close>. It
  holds the registered cleanup actions, the one registered last by \<^verbatim>\<open>prependDefer\<close>
  first. \<^verbatim>\<open>clear\<close> drops them. Leaving the \<^verbatim>\<open>with\<close> block runs every action still
  registered, drops what an action raises, and hands back the outcome of the block as it
  was.
\<close>

type_synonym rollback = "step list"

definition RollbackContext :: rollback where
  "RollbackContext = []"

definition prependDefer :: "step \<Rightarrow> rollback \<Rightarrow> rollback" where
  "prependDefer f r = f # r"

definition clear :: "rollback \<Rightarrow> rollback" where
  "clear r = []"

fun run_deferred :: "rollback \<Rightarrow> world \<Rightarrow> world" where
  "run_deferred [] w = w"
| "run_deferred (f # r) w = run_deferred r (snd (f w))"

definition rollback_exit :: "rollback \<Rightarrow> unit res \<Rightarrow> world \<Rightarrow> unit res \<times> world" where
  "rollback_exit r outcome w = (outcome, run_deferred r w)"

subsection \<open>The export\<close>

text \<open>Statements one after the other: the first exception ends the block.\<close>

fun run_steps :: "step list \<Rightarrow> step" where
  "run_steps [] w = (Ok (), w)"
| "run_steps (s # ss) w =
     (case s w of
        (Raise e, w1) \<Rightarrow> (Raise e, w1)
      | (Ok u, w1) \<Rightarrow> run_steps ss w1)"

text \<open>\<^verbatim>\<open>self.update_lago_metadata()\<close>: the template manager overrides the method.\<close>

definition update_lago_metadata :: "env \<Rightarrow> manager \<Rightarrow> step" where
  "update_lago_metadata E m w =
     (case kind m of
        FileExportManager \<Rightarrow> DiskExportManager_update_lago_metadata E m w
      | TemplateExportManager standalone src_qemu_info \<Rightarrow>
          TemplateExportManager_update_lago_metadata E m w)"

definition FileExportManager_steps :: "env \<Rightarrow> manager \<Rightarrow> step list" where
  "FileExportManager_steps E m =
     [copy E m, sparse E m, calc_sha E m ''sha1'',
      update_lago_metadata E m, write_lago_metadata E m, compress E m]"

definition TemplateExportManager_steps :: "env \<Rightarrow> manager \<Rightarrow> step list" where
  "TemplateExportManager_steps E m =
     [copy E m, sparse E m, rebase E m, calc_sha E m ''sha1'',
      update_lago_metadata E m, write_lago_metadata E m, compress E m]"

text \<open>
  The body of both \<^verbatim>\<open>export\<close> methods: the cleanup is registered first, the steps run,
  and \<^verbatim>\<open>rollback.clear()\<close> is reached only when no step raised.
\<close>

definition export_with_rollback :: "manager \<Rightarrow> step list \<Rightarrow> step" where
  "export_with_rollback m steps w =
     (let rb = prependDefer (shutil_rmtree (dst m) True) RollbackContext
      in case run_steps steps w of
           (Raise e, w1) \<Rightarrow> rollback_exit rb (Raise e) w1
         | (Ok u, w1) \<Rightarrow> rollback_exit (clear rb) (Ok ()) w1)"

definition FileExportManager_export :: "env \<Rightarrow> manager \<Rightarrow> step" where
  "FileExportManager_export E m w = export_with_rollback m (FileExportManager_steps E m) w"

definition TemplateExportManager_export :: "env \<Rightarrow> manager \<Rightarrow> step" where
  "TemplateExportManager_export E m w =
     export_with_rollback m (TemplateExportManager_steps E m) w"

text \<open>\<^verbatim>\<open>manager.export()\<close>: the method of the manager's class.\<close>

definition export :: "env \<Rightarrow> manager \<Rightarrow> step" where
  "export E m w =
     (case kind m of
        FileExportManager \<Rightarrow> FileExportManager_export E m w
      | TemplateExportManager standalone src_qemu_info \<Rightarrow> TemplateExportManager_export E m w)"

text \<open>
  The statements of the manager's \<^verbatim>\<open>export\<close>, and the part of them that runs before the
  checksum and before the compression.
\<close>

definition export_steps :: "env \<Rightarrow> manager \<Rightarrow> step list" where
  "export_steps E m =
     (case kind m of
        FileExportManager \<Rightarrow> FileExportManager_steps E m
      | TemplateExportManager standalone src_qemu_info \<Rightarrow> TemplateExportManager_steps E m)"

definition steps_before_checksum :: "env \<Rightarrow> manager \<Rightarrow> step list" where
  "steps_before_checksum E m =
     (case kind m of
        FileExportManager \<Rightarrow> [copy E m, sparse E m]
      | TemplateExportManager standalone src_qemu_info \<Rightarrow> [copy E m, sparse E m, rebase E m])"

definition steps_before_compress :: "env \<Rightarrow> manager \<Rightarrow> step list" where
  "steps_before_compress E m =
     steps_before_checksum E m @
     [calc_sha E m ''sha1'', update_lago_metadata E m, write_lago_metadata E m]"

text \<open>The heaps of \<open>w\<close> and \<open>w'\<close> differ at most in the object at address \<open>a\<close>.\<close>

definition writes_only :: "nat \<Rightarrow> world \<Rightarrow> world \<Rightarrow> bool" where
  "writes_only a w w' = (\<exists>d. heap w' = (heap w)[a := d])"

section \<open>A concrete environment\<close>

text \<open>
  A small stand-in for the external tools, to run the export on concrete inputs:
  \<^verbatim>\<open>cp\<close> copies a regular file, \<^verbatim>\<open>virt-sparsify\<close> accepts the format \<^verbatim>\<open>qcow2\<close> only,
  the digest of a file is its content behind the name of the algorithm, the compressor
  keeps its input and writes \<^verbatim>\<open>.xz\<close> beside it, and \<^verbatim>\<open>qemu-img info\<close> knows the chains of
  four images. The stand-in for \<^verbatim>\<open>json.dump\<close> writes \<^verbatim>\<open>key=value;\<close> for the strings under
  six keys, and \<^verbatim>\<open>#\<close> for an integer that is not zero.
\<close>

definition ex_dumps :: "pydict \<Rightarrow> string" where
  "ex_dumps d =
     concat (map (\<lambda>k. case d k of
                         Some (JStr s) \<Rightarrow> k @ ''='' @ s @ '';''
                       | Some (JInt i) \<Rightarrow> k @ (if i = 0 then ''=0;'' else ''=#;'')
                       | _ \<Rightarrow> [])
                 [''arch'', ''base'', ''name'', ''sha1'', ''size'', ''version''])"

definition ex_chain :: "string \<Rightarrow> pydict list" where
  "ex_chain p =
     (if p = ''/work/layer3.qcow2'' then
        [[''backing-filename'' \<mapsto> JStr ''/work/layer2.qcow2''],
         [''backing-filename'' \<mapsto> JStr ''/store/repo:img:v1''],
         Map.empty]
      else if p = ''/work/layer2.qcow2'' then
        [[''backing-filename'' \<mapsto> JStr ''/store/repo:img:v1''], Map.empty]
      else if p = ''/work/plain2.qcow2'' then
        [[''backing-filename'' \<mapsto> JStr ''/store/base.qcow2''], Map.empty]
      else [Map.empty])"

definition ex_env :: env where
  "ex_env =
     \<lparr>expandvars = (\<lambda>p. p),
      strftime = (\<lambda>fmt. ''20240101.0''),
      json_dumps = ex_dumps,
      dir_st_size = 4096,
      open_denied = (\<lambda>p f. False),
      x_cp = (\<lambda>s d f. case f s of
                          Some (File b) \<Rightarrow> (Ok (), f(d \<mapsto> File b))
                        | _ \<Rightarrow> (Raise (ToolError ''cp''), f)),
      x_sparse = (\<lambda>p fmt f. if fmt = ''qcow2'' then (Ok (), f)
                            else (Raise (ToolError ''virt-sparsify''), f)),
      x_qemu_rebase = (\<lambda>target backing_file safe f. (Ok (), f)),
      x_get_hash = (\<lambda>p checksum f. case f p of
                                      Some (File b) \<Rightarrow> Ok (checksum @ '':'' @ b)
                                    | _ \<Rightarrow> Raise (IOError p)),
      x_compress = (\<lambda>p block_size f. case f p of
                                        Some (File b) \<Rightarrow> (Ok (), f(p @ ''.xz'' \<mapsto> File (''xz:'' @ b)))
                                      | _ \<Rightarrow> (Raise (ToolError ''xz''), f)),
      x_get_qemu_info = (\<lambda>p backing_chain f. case f p of
                                               Some (File b) \<Rightarrow> Ok (ex_chain p)
                                             | _ \<Rightarrow> Raise (ToolError ''qemu-img''))\<rparr>"

definition ex_fs :: filesystem where
  "ex_fs =
     [''/out'' \<mapsto> Dir,
      ''/work'' \<mapsto> Dir,
      ''/work/disk.qcow2'' \<mapsto> File ''DATA'',
      ''/work/layer3.qcow2'' \<mapsto> File ''L3'',
      ''/work/layer2.qcow2'' \<mapsto> File ''L2'',
      ''/work/plain2.qcow2'' \<mapsto> File ''P2'']"

text \<open>
  The caller's heap holds one metadata dictionary, at address 0. It already has every key
  the export sets.
\<close>

definition ex_metadata :: pydict where
  "ex_metadata =
     [''arch'' \<mapsto> JStr ''x86_64'', ''size'' \<mapsto> JInt 0, ''name'' \<mapsto> JStr ''old-name'',
      ''version'' \<mapsto> JStr ''old-version'', ''sha1'' \<mapsto> JStr ''old-sha'',
      ''base'' \<mapsto> JStr ''old-base'']"

definition ex_world :: world where
  "ex_world = \<lparr>fs = ex_fs, heap = [ex_metadata], trace = []\<rparr>"

definition ex_disk :: "string \<Rightarrow> string \<Rightarrow> string \<Rightarrow> disk_spec" where
  "ex_disk p t fmt = \<lparr>d_path = Some p, d_type = Some t, d_format = Some fmt, d_metadata = Some 0\<rparr>"

text \<open>
  The managers \<^verbatim>\<open>get_instance_by_type\<close> builds in this environment, and the world it
  leaves: the copy of the metadata is the new object at address 1.
\<close>

definition ex_file_mgr :: "string \<Rightarrow> bool \<Rightarrow> manager" where
  "ex_file_mgr fmt c =
     \<lparr>src = ''/work/disk.qcow2'', name = ''disk.qcow2'', dst = ''/out/disk.qcow2'',
      dist_type = ''file'', disk = ex_disk ''/work/disk.qcow2'' ''file'' fmt,
      exported_metadata = 1, do_compress = c, kind = FileExportManager\<rparr>"

definition ex_template_mgr :: "string \<Rightarrow> bool \<Rightarrow> bool \<Rightarrow> manager" where
  "ex_template_mgr nm sa c =
     \<lparr>src = ''/work/'' @ nm, name = nm, dst = ''/out/'' @ nm,
      dist_type = ''template'', disk = ex_disk (''/work/'' @ nm) ''template'' ''qcow2'',
      exported_metadata = 1, do_compress = c,
      kind = TemplateExportManager sa (ex_chain (''/work/'' @ nm))\<rparr>"

definition ex_world1 :: world where
  "ex_world1 = \<lparr>fs = ex_fs, heap = [ex_metadata, ex_metadata], trace = []\<rparr>"

definition ex_world2 :: "string \<Rightarrow> world" where
  "ex_world2 nm =
     \<lparr>fs = ex_fs, heap = [ex_metadata, ex_metadata], trace = [EvQemuInfo (''/work/'' @ nm) True]\<rparr>"

section \<open>What a step that succeeds has done\<close>

lemma run_steps_append:
  "run_steps (xs @ ys) w =
     (case run_steps xs w of (Raise e, w1) \<Rightarrow> (Raise e, w1) | (Ok u, w1) \<Rightarrow> run_steps ys w1)"
  by (induction xs arbitrary: w) (auto split: prod.splits res.splits)

lemma run_steps_Cons_Ok:
  "run_steps (s # ss) w = (Ok u, w') \<longleftrightarrow> (\<exists>w1. s w = (Ok (), w1) \<and> run_steps ss w1 = (Ok u, w'))"
  by (auto split: prod.splits res.splits)

lemma run_steps_Nil_Ok: "run_steps [] w = (Ok u, w') \<longleftrightarrow> w' = w"
  by auto

lemma export_with_rollback_Ok:
  "export_with_rollback m steps w = (Ok u, w') \<longleftrightarrow> run_steps steps w = (Ok (), w')"
  by (auto simp: export_with_rollback_def rollback_exit_def prependDefer_def clear_def
      RollbackContext_def Let_def split: prod.splits res.splits)

lemma export_with_rollback_Raise:
  "export_with_rollback m steps w = (Raise e, w') \<longleftrightarrow>
     (\<exists>w1. run_steps steps w = (Raise e, w1) \<and> w' = snd (shutil_rmtree (dst m) True w1))"
  by (auto simp: export_with_rollback_def rollback_exit_def prependDefer_def clear_def
      RollbackContext_def Let_def split: prod.splits res.splits)

lemma copy_Ok:
  "copy E m w = (Ok u, w') \<Longrightarrow>
     x_cp E (src m) (dst m) (fs w) = (Ok (), fs w') \<and> heap w' = heap w \<and>
     trace w' = trace w @ [EvCp (src m) (dst m)]"
  by (auto simp: copy_def utils_cp_def emit_def Let_def split: prod.splits)

lemma sparse_Ok:
  "sparse E m w = (Ok u, w') \<Longrightarrow>
     \<exists>fmt. d_format (disk m) = Some fmt \<and> x_sparse E (dst m) fmt (fs w) = (Ok (), fs w') \<and>
       heap w' = heap w \<and> trace w' = trace w @ [EvSparse (dst m) fmt]"
  by (auto simp: sparse_def utils_sparse_def emit_def Let_def split: prod.splits option.splits)

lemma calc_sha_Ok:
  "calc_sha E m c w = (Ok u, w') \<Longrightarrow>
     \<exists>sha. x_get_hash E (dst m) c ((fs w)(dst m @ ''.hash'' \<mapsto> File [])) = Ok sha \<and>
       fs w' = (fs w)(dst m @ ''.hash'' \<mapsto> File sha) \<and>
       heap w' = (heap w)[exported_metadata m := (heap w ! exported_metadata m)(c \<mapsto> JStr sha)] \<and>
       trace w' = trace w @ [EvOpenW (dst m @ ''.hash''), EvGetHash (dst m) c,
                             EvWrite (dst m @ ''.hash'') sha]"
  by (auto simp: calc_sha_def py_open_w_def utils_get_hash_def file_write_def dict_setitem_def
      emit_def Let_def split: prod.splits res.splits if_splits)

lemma update_Ok:
  "DiskExportManager_update_lago_metadata E m w = (Ok u, w') \<Longrightarrow>
   exported_metadata m < length (heap w) \<Longrightarrow>
     \<exists>nd. fs w (dst m) = Some nd \<and> fs w' = fs w \<and>
       heap w' = (heap w)[exported_metadata m :=
          (heap w ! exported_metadata m)(''size'' \<mapsto> JInt (st_size E nd), ''name'' \<mapsto> JStr (name m),
             ''version'' \<mapsto> JStr (strftime E ''%Y%m%d.0''))] \<and>
       trace w' = trace w @ [EvStat (dst m)]"
  by (auto simp: DiskExportManager_update_lago_metadata_def os_stat_size_def dict_setitem_def
      emit_def Let_def split: prod.splits res.splits option.splits)

lemma write_Ok:
  "write_lago_metadata E m w = (Ok u, w') \<Longrightarrow>
     fs w' = (fs w)(dst m @ ''.metadata'' \<mapsto> File (json_dumps E (heap w ! exported_metadata m))) \<and>
     heap w' = heap w \<and>
     trace w' = trace w @ [EvOpenW (dst m @ ''.metadata''),
        EvWrite (dst m @ ''.metadata'') (json_dumps E (heap w ! exported_metadata m))]"
  by (auto simp: write_lago_metadata_def py_open_w_def file_write_def emit_def Let_def
      split: prod.splits res.splits if_splits)



lemma template_update_Ok:
  assumes "TemplateExportManager_update_lago_metadata E m w = (Ok u, w')"
    and "exported_metadata m < length (heap w)"
  shows "\<exists>nd sa info. kind m = TemplateExportManager sa info \<and>
       fs w (dst m) = Some nd \<and> fs w' = fs w \<and>
       heap w' = (heap w)[exported_metadata m :=
          (heap w ! exported_metadata m)(''size'' \<mapsto> JInt (st_size E nd), ''name'' \<mapsto> JStr (name m),
             ''version'' \<mapsto> JStr (strftime E ''%Y%m%d.0''),
             ''base'' \<mapsto> JStr (if sa then ''None'' else basename (src m)))] \<and>
       trace w' = trace w @ [EvStat (dst m)]"
proof -
  from assms(1) obtain w1 sa info where
    base: "DiskExportManager_update_lago_metadata E m w = (Ok (), w1)"
    and k: "kind m = TemplateExportManager sa info"
    and w': "w' = dict_setitem (exported_metadata m) ''base''
                    (JStr (if sa then ''None'' else basename (src m))) w1"
    unfolding TemplateExportManager_update_lago_metadata_def
    by (auto split: prod.splits res.splits mkind.splits if_splits)
  from update_Ok[OF base assms(2)] obtain nd where
    nd: "fs w (dst m) = Some nd" "fs w1 = fs w"
      "heap w1 = (heap w)[exported_metadata m :=
          (heap w ! exported_metadata m)(''size'' \<mapsto> JInt (st_size E nd), ''name'' \<mapsto> JStr (name m),
             ''version'' \<mapsto> JStr (strftime E ''%Y%m%d.0''))]"
      "trace w1 = trace w @ [EvStat (dst m)]"
    by blast
  have "heap w' = (heap w)[exported_metadata m :=
          (heap w ! exported_metadata m)(''size'' \<mapsto> JInt (st_size E nd), ''name'' \<mapsto> JStr (name m),
             ''version'' \<mapsto> JStr (strftime E ''%Y%m%d.0''),
             ''base'' \<mapsto> JStr (if sa then ''None'' else basename (src m)))]"
    using assms(2) by (simp add: w' dict_setitem_def nd(3))
  moreover have "fs w' = fs w" "trace w' = trace w @ [EvStat (dst m)]"
    by (simp_all add: w' dict_setitem_def nd)
  ultimately show ?thesis using k nd(1) by blast
qed

lemma compress_Ok:
  "compress E m w = (Ok u, w') \<Longrightarrow>
     heap w' = heap w \<and>
     (if do_compress m
      then (\<exists>f b. x_compress E (dst m) 16777216 (fs w) = (Ok (), f) \<and> f (dst m) = Some (File b) \<and>
              fs w' = f(dst m := None)) \<and>
           trace w' = trace w @ [EvCompress (dst m) 16777216, EvUnlink (dst m)]
      else w' = w)"
  by (auto simp: compress_def utils_compress_def os_unlink_def emit_def Let_def
      split: prod.splits res.splits if_splits option.splits node.splits)


lemma utils_qemu_rebase_Ok:
  "utils_qemu_rebase E t b s w = (Ok u, w') \<Longrightarrow>
     x_qemu_rebase E t b s (fs w) = (Ok (), fs w') \<and> heap w' = heap w \<and>
     trace w' = trace w @ [EvQemuRebase t b s]"
  by (auto simp: utils_qemu_rebase_def emit_def Let_def split: prod.splits)

lemma rebase_Ok:
  assumes "rebase E m w = (Ok u, w')"
  shows "heap w' = heap w \<and>
     (w' = w \<or> (\<exists>b s. trace w' = trace w @ [EvQemuRebase (dst m) b s]))"
proof (cases "kind m")
  case FileExportManager
  with assms show ?thesis by (simp add: rebase_def)
next
  case (TemplateExportManager sa info)
  show ?thesis
  proof (cases "length info = 1")
    case True
    with assms TemplateExportManager show ?thesis by (simp add: rebase_def)
  next
    case False
    with assms TemplateExportManager obtain b s where
      "utils_qemu_rebase E (dst m) b s w = (Ok u, w')"
      by (auto simp: rebase_def split: if_splits list.splits option.splits jval.splits res.splits)
    from utils_qemu_rebase_Ok[OF this] show ?thesis by blast
  qed
qed

lemma export_Ok:
  assumes "export E m w = (Ok u, w')"
  obtains w1 w2 w3 w4 w5 w6 where
    "copy E m w = (Ok (), w1)" "sparse E m w1 = (Ok (), w2)"
    "if kind m = FileExportManager then w3 = w2 else rebase E m w2 = (Ok (), w3)"
    "calc_sha E m ''sha1'' w3 = (Ok (), w4)"
    "update_lago_metadata E m w4 = (Ok (), w5)"
    "write_lago_metadata E m w5 = (Ok (), w6)"
    "compress E m w6 = (Ok (), w')"
proof (cases "kind m")
  case FileExportManager
  with assms have "run_steps (FileExportManager_steps E m) w = (Ok (), w')"
    by (simp add: export_def FileExportManager_export_def export_with_rollback_Ok)
  then obtain w1 w2 w4 w5 w6 where
    "copy E m w = (Ok (), w1)" "sparse E m w1 = (Ok (), w2)"
    "calc_sha E m ''sha1'' w2 = (Ok (), w4)"
    "update_lago_metadata E m w4 = (Ok (), w5)"
    "write_lago_metadata E m w5 = (Ok (), w6)"
    "compress E m w6 = (Ok (), w')"
    by (auto simp: FileExportManager_steps_def run_steps_Cons_Ok run_steps_Nil_Ok
        simp del: run_steps.simps)
  then show ?thesis using FileExportManager that[of w1 w2 w2 w4 w5 w6] by simp
next
  case (TemplateExportManager sa info)
  with assms have "run_steps (TemplateExportManager_steps E m) w = (Ok (), w')"
    by (simp add: export_def TemplateExportManager_export_def export_with_rollback_Ok)
  then obtain w1 w2 w3 w4 w5 w6 where
    "copy E m w = (Ok (), w1)" "sparse E m w1 = (Ok (), w2)"
    "rebase E m w2 = (Ok (), w3)"
    "calc_sha E m ''sha1'' w3 = (Ok (), w4)"
    "update_lago_metadata E m w4 = (Ok (), w5)"
    "write_lago_metadata E m w5 = (Ok (), w6)"
    "compress E m w6 = (Ok (), w')"
    by (auto simp: TemplateExportManager_steps_def run_steps_Cons_Ok run_steps_Nil_Ok
        simp del: run_steps.simps)
  then show ?thesis using TemplateExportManager that[of w1 w2 w3 w4 w5 w6] by simp
qed

lemma export_Raise:
  "export E m w = (Raise e, w') \<longleftrightarrow>
     (\<exists>w1. run_steps (export_steps E m) w = (Raise e, w1) \<and> w' = snd (shutil_rmtree (dst m) True w1))"
  by (cases "kind m")
     (simp_all add: export_def export_steps_def FileExportManager_export_def
        TemplateExportManager_export_def export_with_rollback_Raise)

lemma update_any_Ok:
  assumes "update_lago_metadata E m w = (Ok u, w')"
    and "exported_metadata m < length (heap w)"
  shows "\<exists>nd d. fs w (dst m) = Some nd \<and> fs w' = fs w \<and>
       heap w' = (heap w)[exported_metadata m := d] \<and>
       d ''size'' = Some (JInt (st_size E nd)) \<and> d ''name'' = Some (JStr (name m)) \<and>
       d ''version'' = Some (JStr (strftime E ''%Y%m%d.0'')) \<and>
       (\<forall>k. k \<notin> {''size'', ''name'', ''version'', ''base''} \<longrightarrow> d k = (heap w ! exported_metadata m) k) \<and>
       (case kind m of FileExportManager \<Rightarrow> d ''base'' = (heap w ! exported_metadata m) ''base''
          | TemplateExportManager sa info \<Rightarrow>
              d ''base'' = Some (JStr (if sa then ''None'' else basename (src m)))) \<and>
       trace w' = trace w @ [EvStat (dst m)]"
proof (cases "kind m")
  case FileExportManager
  with assms(1) have "DiskExportManager_update_lago_metadata E m w = (Ok u, w')"
    by (simp add: update_lago_metadata_def)
  from update_Ok[OF this assms(2)] obtain nd where
     nd: "fs w (dst m) = Some nd" "fs w' = fs w"
       "heap w' = (heap w)[exported_metadata m :=
          (heap w ! exported_metadata m)(''size'' \<mapsto> JInt (st_size E nd), ''name'' \<mapsto> JStr (name m),
             ''version'' \<mapsto> JStr (strftime E ''%Y%m%d.0''))]"
       "trace w' = trace w @ [EvStat (dst m)]" by blast
  show ?thesis
    apply (rule exI[of _ nd])
    apply (rule exI[of _ "(heap w ! exported_metadata m)(''size'' \<mapsto> JInt (st_size E nd), ''name'' \<mapsto> JStr (name m),
             ''version'' \<mapsto> JStr (strftime E ''%Y%m%d.0''))"])
    using nd FileExportManager by simp
next
  case (TemplateExportManager sa info)
  with assms(1) have "TemplateExportManager_update_lago_metadata E m w = (Ok u, w')"
    by (simp add: update_lago_metadata_def)
  from template_update_Ok[OF this assms(2)] TemplateExportManager obtain nd where
     nd: "fs w (dst m) = Some nd" "fs w' = fs w"
       "heap w' = (heap w)[exported_metadata m :=
          (heap w ! exported_metadata m)(''size'' \<mapsto> JInt (st_size E nd), ''name'' \<mapsto> JStr (name m),
             ''version'' \<mapsto> JStr (strftime E ''%Y%m%d.0''),
             ''base'' \<mapsto> JStr (if sa then ''None'' else basename (src m)))]"
       "trace w' = trace w @ [EvStat (dst m)]" by auto
  show ?thesis
    apply (rule exI[of _ nd])
    apply (rule exI[of _ "(heap w ! exported_metadata m)(''size'' \<mapsto> JInt (st_size E nd), ''name'' \<mapsto> JStr (name m),
             ''version'' \<mapsto> JStr (strftime E ''%Y%m%d.0''),
             ''base'' \<mapsto> JStr (if sa then ''None'' else basename (src m)))"])
    using nd TemplateExportManager by simp
qed


lemma export_steps_split: "export_steps E m = steps_before_compress E m @ [compress E m]"
  by (cases "kind m")
     (simp_all add: export_steps_def steps_before_compress_def steps_before_checksum_def
        FileExportManager_steps_def TemplateExportManager_steps_def)

lemma export_Ok_steps:
  "export E m w = (Ok u, w') \<longleftrightarrow> run_steps (export_steps E m) w = (Ok (), w')"
  by (cases "kind m")
     (simp_all add: export_def export_steps_def FileExportManager_export_def
        TemplateExportManager_export_def export_with_rollback_Ok)

lemma run_steps_snoc_Ok:
  "run_steps (ss @ [s]) w = (Ok u, w') \<longleftrightarrow>
     (\<exists>w1. run_steps ss w = (Ok (), w1) \<and> s w1 = (Ok (), w'))"
  by (auto simp: run_steps_append split: prod.splits res.splits)

lemma update_any_trace:
  "update_lago_metadata E m w = (Ok u, w') \<Longrightarrow>
     fs w' = fs w \<and> trace w' = trace w @ [EvStat (dst m)]"
  by (auto simp: update_lago_metadata_def TemplateExportManager_update_lago_metadata_def
      DiskExportManager_update_lago_metadata_def os_stat_size_def dict_setitem_def emit_def Let_def
      split: mkind.splits prod.splits res.splits option.splits if_splits)

lemma export_Ok_states:
  assumes "export E m w = (Ok u, w')"
  obtains w3 w4 w5 w6 where
    "run_steps (steps_before_checksum E m) w = (Ok (), w3)"
    "heap w3 = heap w"
    "calc_sha E m ''sha1'' w3 = (Ok (), w4)"
    "update_lago_metadata E m w4 = (Ok (), w5)"
    "write_lago_metadata E m w5 = (Ok (), w6)"
    "run_steps (steps_before_compress E m) w = (Ok (), w6)"
    "compress E m w6 = (Ok (), w')"
proof -
  from assms obtain w1 w2 w3 w4 w5 w6 where
    s1: "copy E m w = (Ok (), w1)" and s2: "sparse E m w1 = (Ok (), w2)"
    and s3: "if kind m = FileExportManager then w3 = w2 else rebase E m w2 = (Ok (), w3)"
    and s4: "calc_sha E m ''sha1'' w3 = (Ok (), w4)"
    and s5: "update_lago_metadata E m w4 = (Ok (), w5)"
    and s6: "write_lago_metadata E m w5 = (Ok (), w6)"
    and s7: "compress E m w6 = (Ok (), w')"
    by (rule export_Ok)
  have pre: "run_steps (steps_before_checksum E m) w = (Ok (), w3)"
    using s1 s2 s3 by (cases "kind m") (simp_all add: steps_before_checksum_def)
  have h: "heap w3 = heap w"
  proof (cases "kind m = FileExportManager")
    case True
    with s3 copy_Ok[OF s1] sparse_Ok[OF s2] show ?thesis by auto
  next
    case False
    with s3 have "rebase E m w2 = (Ok (), w3)" by simp
    from rebase_Ok[OF this] copy_Ok[OF s1] sparse_Ok[OF s2] show ?thesis by auto
  qed
  have "run_steps (steps_before_compress E m) w = (Ok (), w6)"
    using pre s4 s5 s6 by (simp add: steps_before_compress_def run_steps_append)
  with pre h s4 s5 s6 s7 that show ?thesis by blast
qed

lemma sidecar_paths:
  "p @ ''.hash'' \<noteq> p" "p @ ''.metadata'' \<noteq> p" "p @ ''.hash'' \<noteq> p @ ''.metadata''"
  "p \<noteq> p @ ''.hash''" "p \<noteq> p @ ''.metadata''" "p @ ''.metadata'' \<noteq> p @ ''.hash''"
  by simp_all

lemma run_steps_rel:
  assumes step: "\<And>s w. s \<in> set ss \<Longrightarrow> R w (snd (s w))"
    and refl: "\<And>w. R w w"
    and trans: "\<And>a b c. R a b \<Longrightarrow> R b c \<Longrightarrow> R a c"
  shows "R w (snd (run_steps ss w))"
  using step
proof (induction ss arbitrary: w)
  case Nil
  show ?case by (simp add: refl)
next
  case (Cons s ss)
  have first: "R w (snd (s w))" using Cons.prems by simp
  show ?case
  proof (cases "s w")
    case (Pair r w1)
    show ?thesis
    proof (cases r)
      case (Ok u)
      have "R w1 (snd (run_steps ss w1))" using Cons.IH Cons.prems by simp
      with first Pair Ok show ?thesis by (auto intro: trans)
    next
      case (Raise e)
      with first Pair show ?thesis by simp
    qed
  qed
qed

lemma writes_only_refl: "writes_only a w w"
  unfolding writes_only_def by (rule exI[of _ "heap w ! a"]) simp

lemma writes_only_trans: "writes_only a w w1 \<Longrightarrow> writes_only a w1 w2 \<Longrightarrow> writes_only a w w2"
  unfolding writes_only_def by auto

lemma writes_only_same: "heap w' = heap w \<Longrightarrow> writes_only a w w'"
  using writes_only_refl[of a w] by (simp add: writes_only_def)

lemma heap_copy: "heap (snd (copy E m w)) = heap w"
  by (simp add: copy_def utils_cp_def emit_def Let_def split: prod.splits)

lemma heap_sparse: "heap (snd (sparse E m w)) = heap w"
  by (simp add: sparse_def utils_sparse_def emit_def Let_def split: prod.splits option.splits)

lemma heap_utils_qemu_rebase: "heap (snd (utils_qemu_rebase E t b s w)) = heap w"
  by (simp add: utils_qemu_rebase_def emit_def Let_def split: prod.splits)

lemma heap_rebase: "heap (snd (rebase E m w)) = heap w"
  by (simp add: rebase_def heap_utils_qemu_rebase
      split: mkind.splits list.splits option.splits jval.splits res.splits)

lemma heap_write: "heap (snd (write_lago_metadata E m w)) = heap w"
  by (simp add: write_lago_metadata_def py_open_w_def file_write_def emit_def Let_def)

lemma heap_compress: "heap (snd (compress E m w)) = heap w"
  by (simp add: compress_def utils_compress_def os_unlink_def emit_def Let_def
      split: prod.splits res.splits option.splits node.splits)

lemma heap_rmtree: "heap (snd (shutil_rmtree p ie w)) = heap w"
  by (simp add: shutil_rmtree_def emit_def Let_def split: option.splits node.splits)

lemma heap_calc_sha: "writes_only (exported_metadata m) w (snd (calc_sha E m c w))"
  by (auto simp: calc_sha_def py_open_w_def utils_get_hash_def file_write_def dict_setitem_def
      emit_def Let_def writes_only_def split: prod.splits res.splits
      intro: exI[of _ "heap w ! exported_metadata m"])

lemma heap_update: "writes_only (exported_metadata m) w (snd (update_lago_metadata E m w))"
  by (auto simp: update_lago_metadata_def TemplateExportManager_update_lago_metadata_def
      DiskExportManager_update_lago_metadata_def os_stat_size_def dict_setitem_def emit_def Let_def
      writes_only_def
      split: mkind.splits prod.splits res.splits option.splits
      intro: exI[of _ "heap w ! exported_metadata m"])

lemma heap_export_steps:
  assumes "s \<in> set (export_steps E m)"
  shows "writes_only (exported_metadata m) w (snd (s w))"
proof -
  from assms have "s = copy E m \<or> s = sparse E m \<or> s = rebase E m \<or> s = calc_sha E m ''sha1'' \<or>
      s = update_lago_metadata E m \<or> s = write_lago_metadata E m \<or> s = compress E m"
    by (cases "kind m")
       (auto simp: export_steps_def FileExportManager_steps_def TemplateExportManager_steps_def)
  then show ?thesis
    by (elim disjE)
       (simp_all add: heap_calc_sha heap_update writes_only_same heap_copy heap_sparse
          heap_rebase heap_write heap_compress)
qed

lemma heap_run_export_steps:
  "writes_only (exported_metadata m) w (snd (run_steps (export_steps E m) w))"
  by (rule run_steps_rel[where R = "writes_only (exported_metadata m)"])
     (auto intro: heap_export_steps writes_only_refl writes_only_trans)

lemma heap_export: "export E m w = (r, w') \<Longrightarrow> writes_only (exported_metadata m) w w'"
proof (cases r)
  case (Ok u)
  assume "export E m w = (r, w')"
  with Ok have "run_steps (export_steps E m) w = (Ok (), w')" by (simp add: export_Ok_steps)
  with heap_run_export_steps[of m w E] show ?thesis by simp
next
  case (Raise e)
  assume "export E m w = (r, w')"
  with Raise obtain w1 where w1: "run_steps (export_steps E m) w = (Raise e, w1)"
    and w': "w' = snd (shutil_rmtree (dst m) True w1)"
    by (auto simp: export_Raise)
  from heap_run_export_steps[of m w E] w1 have "writes_only (exported_metadata m) w w1" by simp
  moreover have "heap w' = heap w1" by (simp add: w' heap_rmtree)
  ultimately show ?thesis by (simp add: writes_only_def)
qed

lemma rebase_too_deep:
  "kind m = TemplateExportManager False info \<Longrightarrow> 2 < length info \<Longrightarrow>
     rebase E m w =
       (Raise (LagoUserException
          (''Layered export is currently supported for one '' @
           ''layer only.  You can try to use Standalone export.'')), w)"
  by (simp add: rebase_def)

lemma template_steps_split:
  "kind m = TemplateExportManager sa info \<Longrightarrow>
     export_steps E m = [copy E m, sparse E m] @ rebase E m #
        [calc_sha E m ''sha1'', update_lago_metadata E m, write_lago_metadata E m, compress E m]"
  by (simp add: export_steps_def TemplateExportManager_steps_def)





section \<open>Construction\<close>

lemma HANDLERS_eq:
  "HANDLERS t = (if t = ''file'' \<or> t = ''empty'' then Some FileHandler
                 else if t = ''template'' then Some TemplateHandler else None)"
  by (simp add: HANDLERS_def)

lemma DiskExportManager_init_Ok:
  "DiskExportManager_init E dst_arg t dsk c w = (Ok m, w') \<Longrightarrow>
     \<exists>p a. d_path dsk = Some p \<and> d_metadata dsk = Some a \<and>
       src m = expandvars E p \<and> name m = basename (src m) \<and>
       dst m = path_join (expandvars E dst_arg) (name m) \<and> dist_type m = t \<and> disk m = dsk \<and>
       exported_metadata m = length (heap w) \<and> do_compress m = c \<and> kind m = FileExportManager \<and>
       fs w' = fs w \<and> trace w' = trace w \<and> heap w' = heap w @ [heap w ! a]"
  by (auto simp: DiskExportManager_init_def deepcopy_def Let_def split: option.splits)

lemma DiskExportManager_init_Raise:
  "DiskExportManager_init E dst_arg t dsk c w = (Raise e, w') \<Longrightarrow>
     w' = w \<and> (e = KeyError ''path'' \<or> e = KeyError ''metadata'')"
  by (auto simp: DiskExportManager_init_def deepcopy_def Let_def split: option.splits)

lemma get_instance_by_type_Ok:
  assumes "get_instance_by_type E dst_arg dsk c kwargs w = (Ok m, w')"
  shows "\<exists>a. d_metadata dsk = Some a \<and> disk m = dsk \<and> exported_metadata m = length (heap w) \<and>
           heap w' = heap w @ [heap w ! a] \<and> do_compress m = c"
  using assms
  by (auto simp: get_instance_by_type_def FileExportManager_init_def TemplateExportManager_init_def
      utils_get_qemu_info_def emit_def Let_def
      split: option.splits handler.splits prod.splits res.splits
      dest!: DiskExportManager_init_Ok)

lemma get_instance_by_type_heap:
  "take (length (heap w)) (heap (snd (get_instance_by_type E dst_arg dsk c kwargs w))) = heap w"
  by (auto simp: get_instance_by_type_def FileExportManager_init_def TemplateExportManager_init_def
      DiskExportManager_init_def deepcopy_def utils_get_qemu_info_def emit_def Let_def
      split: option.splits handler.splits prod.splits res.splits)

section \<open>The concrete environment, evaluated\<close>

lemma ex_disk_sel:
  "d_path (ex_disk p t fmt) = Some p" "d_type (ex_disk p t fmt) = Some t"
  "d_format (ex_disk p t fmt) = Some fmt" "d_metadata (ex_disk p t fmt) = Some 0"
  by (simp_all add: ex_disk_def)

lemma ex_world_sel:
  "fs ex_world = ex_fs" "heap ex_world = [ex_metadata]" "trace ex_world = []"
  "fs ex_world1 = ex_fs" "heap ex_world1 = [ex_metadata, ex_metadata]" "trace ex_world1 = []"
  "fs (ex_world2 nm) = ex_fs" "heap (ex_world2 nm) = [ex_metadata, ex_metadata]"
  "trace (ex_world2 nm) = [EvQemuInfo (''/work/'' @ nm) True]"
  by (simp_all add: ex_world_def ex_world1_def ex_world2_def)

lemma ex_file_job:
  "get_instance_by_type ex_env ''/out'' (ex_disk ''/work/disk.qcow2'' ''file'' fmt) c kw ex_world =
     (Ok (ex_file_mgr fmt c), ex_world1)"
  by (simp add: get_instance_by_type_def HANDLERS_def FileExportManager_init_def
      DiskExportManager_init_def deepcopy_def Let_def basename_def path_join_def
      ex_env_def ex_disk_def ex_world_def ex_world1_def ex_file_mgr_def)

lemma ex_template_job_layer2:
  "get_instance_by_type ex_env ''/out'' (ex_disk ''/work/layer2.qcow2'' ''template'' ''qcow2'') c
      [''standalone'' \<mapsto> sa] ex_world =
     (Ok (ex_template_mgr ''layer2.qcow2'' sa c), ex_world2 ''layer2.qcow2'')"
  by (simp add: get_instance_by_type_def HANDLERS_def TemplateExportManager_init_def
      DiskExportManager_init_def deepcopy_def Let_def basename_def path_join_def
      utils_get_qemu_info_def emit_def
      ex_env_def ex_disk_def ex_world_def ex_world2_def ex_template_mgr_def ex_fs_def)

lemmas ex_unfold =
  ex_env_def ex_fs_def ex_disk_def ex_metadata_def ex_chain_def ex_dumps_def
  ex_file_mgr_def ex_template_mgr_def ex_world1_def ex_world2_def
  emit_def utils_cp_def utils_sparse_def utils_qemu_rebase_def utils_get_hash_def
  utils_compress_def utils_get_qemu_info_def basename_def path_join_def split_colon_1_def
  py_open_w_def file_write_def os_stat_size_def os_unlink_def below_def rstrip_slash_def
  shutil_rmtree_def
  dict_setitem_def copy_def sparse_def calc_sha_def compress_def
  DiskExportManager_update_lago_metadata_def TemplateExportManager_update_lago_metadata_def
  update_lago_metadata_def write_lago_metadata_def rebase_def
  RollbackContext_def prependDefer_def clear_def rollback_exit_def
  FileExportManager_steps_def TemplateExportManager_steps_def export_with_rollback_def
  FileExportManager_export_def TemplateExportManager_export_def export_def Let_def

lemma ex_template_job_layer3:
  "get_instance_by_type ex_env ''/out'' (ex_disk ''/work/layer3.qcow2'' ''template'' ''qcow2'') c
      [''standalone'' \<mapsto> sa] ex_world =
     (Ok (ex_template_mgr ''layer3.qcow2'' sa c), ex_world2 ''layer3.qcow2'')"
  by (simp add: get_instance_by_type_def HANDLERS_def TemplateExportManager_init_def
      DiskExportManager_init_def deepcopy_def Let_def basename_def path_join_def
      utils_get_qemu_info_def emit_def
      ex_env_def ex_disk_def ex_world_def ex_world2_def ex_template_mgr_def ex_fs_def)

lemma ex_run_sparse_fails:
  "fst (export ex_env (ex_file_mgr ''qcow3'' False) ex_world1) = Raise (ToolError ''virt-sparsify'')"
  "trace (snd (export ex_env (ex_file_mgr ''qcow3'' False) ex_world1)) =
     [EvCp ''/work/disk.qcow2'' ''/out/disk.qcow2'', EvSparse ''/out/disk.qcow2'' ''qcow3'',
      EvRmtree ''/out/disk.qcow2'' True]"
  "fs (snd (export ex_env (ex_file_mgr ''qcow3'' False) ex_world1)) ''/out/disk.qcow2'' =
     Some (File ''DATA'')"
  by (simp_all add: ex_unfold)

lemma ex_run_layer3:
  "fst (export ex_env (ex_template_mgr ''layer3.qcow2'' False False) (ex_world2 ''layer3.qcow2'')) =
     Raise (LagoUserException
       ''Layered export is currently supported for one layer only.  You can try to use Standalone export.'')"
  "trace (snd (export ex_env (ex_template_mgr ''layer3.qcow2'' False False)
                 (ex_world2 ''layer3.qcow2''))) =
     [EvQemuInfo ''/work/layer3.qcow2'' True,
      EvCp ''/work/layer3.qcow2'' ''/out/layer3.qcow2'',
      EvSparse ''/out/layer3.qcow2'' ''qcow2'',
      EvRmtree ''/out/layer3.qcow2'' True]"
  "fs (snd (export ex_env (ex_template_mgr ''layer3.qcow2'' False False)
              (ex_world2 ''layer3.qcow2''))) ''/out/layer3.qcow2'' = Some (File ''L3'')"
  by (simp_all add: ex_unfold)

lemma ex_run_file:
  "fst (export ex_env (ex_file_mgr ''qcow2'' c) ex_world1) = Ok ()"
  by (cases c) (simp_all add: ex_unfold)

lemma ex_run_file_compressed:
  "fs (snd (export ex_env (ex_file_mgr ''qcow2'' True) ex_world1)) ''/out/disk.qcow2'' = None"
  "fs (snd (export ex_env (ex_file_mgr ''qcow2'' True) ex_world1)) ''/out/disk.qcow2.xz'' =
     Some (File ''xz:DATA'')"
  by (simp_all add: ex_unfold)

lemma ex_run_layer2:
  "fst (export ex_env (ex_template_mgr ''layer2.qcow2'' False True) (ex_world2 ''layer2.qcow2'')) = Ok ()"
  "trace (snd (export ex_env (ex_template_mgr ''layer2.qcow2'' False True) (ex_world2 ''layer2.qcow2''))) =
     [EvQemuInfo ''/work/layer2.qcow2'' True,
      EvCp ''/work/layer2.qcow2'' ''/out/layer2.qcow2'',
      EvSparse ''/out/layer2.qcow2'' ''qcow2'',
      EvQemuRebase ''/out/layer2.qcow2'' ''./img:v1'' (Some False),
      EvOpenW ''/out/layer2.qcow2.hash'',
      EvGetHash ''/out/layer2.qcow2'' ''sha1'',
      EvWrite ''/out/layer2.qcow2.hash'' ''sha1:L2'',
      EvStat ''/out/layer2.qcow2'',
      EvOpenW ''/out/layer2.qcow2.metadata'',
      EvWrite ''/out/layer2.qcow2.metadata''
        ''arch=x86_64;base=layer2.qcow2;name=layer2.qcow2;sha1=sha1:L2;size=#;version=20240101.0;'',
      EvCompress ''/out/layer2.qcow2'' 16777216,
      EvUnlink ''/out/layer2.qcow2'']"
  by (simp_all add: ex_unfold)


lemma ex_compress_frame:
  "\<forall>f f'. x_compress ex_env p n f = (Ok (), f') \<longrightarrow>
      f' (p @ ''.hash'') = f (p @ ''.hash'') \<and> f' (p @ ''.metadata'') = f (p @ ''.metadata'')"
  by (auto simp: ex_env_def split: option.splits node.splits)

lemma export_collapse: "fst (export E m w) = r \<Longrightarrow> export E m w = (r, snd (export E m w))"
  by (metis prod.collapse)

lemma ex_layer3_two_steps:
  "fst (run_steps [copy ex_env (ex_template_mgr ''layer3.qcow2'' False False),
                   sparse ex_env (ex_template_mgr ''layer3.qcow2'' False False)]
          (ex_world2 ''layer3.qcow2'')) = Ok ()"
  by (simp add: ex_unfold)

section \<open>Variant resolution\<close>

text \<open>
  C8. \<^verbatim>\<open>HANDLERS\<close> maps exactly \<^verbatim>\<open>file\<close> and \<^verbatim>\<open>empty\<close> to the file manager and
  \<^verbatim>\<open>template\<close> to the template manager. For a disk of any other type
  \<^verbatim>\<open>get_instance_by_type\<close> raises \<^verbatim>\<open>LagoUserException\<close> with a message that ends in the
  type, and the world (file system, heap, external calls) is as it was. A \<^verbatim>\<open>file\<close> or
  \<^verbatim>\<open>empty\<close> disk that has its \<^verbatim>\<open>path\<close> and \<^verbatim>\<open>metadata\<close> is resolved to a file manager,
  with the fields \<^verbatim>\<open>__init__\<close> computes and no effect but the copy of the metadata. A
  \<^verbatim>\<open>template\<close> disk, given \<^verbatim>\<open>standalone\<close>, is resolved to a template manager that holds the
  chain \<^verbatim>\<open>get_qemu_info\<close> returned, the one external call; when that call fails, so does the
  construction, with its error. A manager that is returned has the class the table gives
  for the type.
\<close>

theorem variant_resolution:
  "HANDLERS t = (if t = ''file'' \<or> t = ''empty'' then Some FileHandler
                 else if t = ''template'' then Some TemplateHandler else None) \<and>
   (d_type dsk = Some t \<and> t \<noteq> ''file'' \<and> t \<noteq> ''empty'' \<and> t \<noteq> ''template'' \<longrightarrow>
      get_instance_by_type E dst_arg dsk c kwargs w =
        (Raise (LagoUserException (''Export is not supported for disk type '' @ t)), w)) \<and>
   (d_type dsk = Some t \<and> (t = ''file'' \<or> t = ''empty'') \<and>
    d_path dsk = Some p \<and> d_metadata dsk = Some a \<longrightarrow>
      get_instance_by_type E dst_arg dsk c kwargs w =
        (Ok \<lparr>src = expandvars E p, name = basename (expandvars E p),
             dst = path_join (expandvars E dst_arg) (basename (expandvars E p)),
             dist_type = t, disk = dsk, exported_metadata = length (heap w),
             do_compress = c, kind = FileExportManager\<rparr>,
         w\<lparr>heap := heap w @ [heap w ! a]\<rparr>)) \<and>
   (d_type dsk = Some ''template'' \<and> d_path dsk = Some p \<and> d_metadata dsk = Some a \<and>
    kwargs ''standalone'' = Some sa \<and>
    x_get_qemu_info E (expandvars E p) True (fs w) = Ok info \<longrightarrow>
      get_instance_by_type E dst_arg dsk c kwargs w =
        (Ok \<lparr>src = expandvars E p, name = basename (expandvars E p),
             dst = path_join (expandvars E dst_arg) (basename (expandvars E p)),
             dist_type = ''template'', disk = dsk, exported_metadata = length (heap w),
             do_compress = c, kind = TemplateExportManager sa info\<rparr>,
         w\<lparr>heap := heap w @ [heap w ! a],
           trace := trace w @ [EvQemuInfo (expandvars E p) True]\<rparr>)) \<and>
   (d_type dsk = Some ''template'' \<and> d_path dsk = Some p \<and> d_metadata dsk = Some a \<and>
    kwargs ''standalone'' = Some sa \<and>
    x_get_qemu_info E (expandvars E p) True (fs w) = Raise e \<longrightarrow>
      fst (get_instance_by_type E dst_arg dsk c kwargs w) = Raise e) \<and>
   (d_type dsk = Some t \<and> get_instance_by_type E dst_arg dsk c kwargs w = (Ok m, w') \<longrightarrow>
      (kind m = FileExportManager) = (t = ''file'' \<or> t = ''empty'') \<and>
      (\<exists>sa info. kind m = TemplateExportManager sa info) = (t = ''template''))"
proof (intro conjI impI)
  show "HANDLERS t = (if t = ''file'' \<or> t = ''empty'' then Some FileHandler
                 else if t = ''template'' then Some TemplateHandler else None)"
    by (rule HANDLERS_eq)
next
  assume "d_type dsk = Some t \<and> t \<noteq> ''file'' \<and> t \<noteq> ''empty'' \<and> t \<noteq> ''template''"
  then show "get_instance_by_type E dst_arg dsk c kwargs w =
        (Raise (LagoUserException (''Export is not supported for disk type '' @ t)), w)"
    by (simp add: get_instance_by_type_def HANDLERS_eq)
next
  assume "d_type dsk = Some t \<and> (t = ''file'' \<or> t = ''empty'') \<and>
    d_path dsk = Some p \<and> d_metadata dsk = Some a"
  then show "get_instance_by_type E dst_arg dsk c kwargs w =
        (Ok \<lparr>src = expandvars E p, name = basename (expandvars E p),
             dst = path_join (expandvars E dst_arg) (basename (expandvars E p)),
             dist_type = t, disk = dsk, exported_metadata = length (heap w),
             do_compress = c, kind = FileExportManager\<rparr>,
         w\<lparr>heap := heap w @ [heap w ! a]\<rparr>)"
    by (auto simp: get_instance_by_type_def HANDLERS_eq FileExportManager_init_def
        DiskExportManager_init_def deepcopy_def Let_def)
next
  assume "d_type dsk = Some ''template'' \<and> d_path dsk = Some p \<and> d_metadata dsk = Some a \<and>
    kwargs ''standalone'' = Some sa \<and>
    x_get_qemu_info E (expandvars E p) True (fs w) = Ok info"
  then show "get_instance_by_type E dst_arg dsk c kwargs w =
        (Ok \<lparr>src = expandvars E p, name = basename (expandvars E p),
             dst = path_join (expandvars E dst_arg) (basename (expandvars E p)),
             dist_type = ''template'', disk = dsk, exported_metadata = length (heap w),
             do_compress = c, kind = TemplateExportManager sa info\<rparr>,
         w\<lparr>heap := heap w @ [heap w ! a],
           trace := trace w @ [EvQemuInfo (expandvars E p) True]\<rparr>)"
    by (simp add: get_instance_by_type_def HANDLERS_eq TemplateExportManager_init_def
        DiskExportManager_init_def deepcopy_def utils_get_qemu_info_def emit_def Let_def)
next
  assume "d_type dsk = Some ''template'' \<and> d_path dsk = Some p \<and> d_metadata dsk = Some a \<and>
    kwargs ''standalone'' = Some sa \<and>
    x_get_qemu_info E (expandvars E p) True (fs w) = Raise e"
  then show "fst (get_instance_by_type E dst_arg dsk c kwargs w) = Raise e"
    by (simp add: get_instance_by_type_def HANDLERS_eq TemplateExportManager_init_def
        DiskExportManager_init_def deepcopy_def utils_get_qemu_info_def emit_def Let_def)
next
  assume a: "d_type dsk = Some t \<and> get_instance_by_type E dst_arg dsk c kwargs w = (Ok m, w')"
  show "(kind m = FileExportManager) = (t = ''file'' \<or> t = ''empty'')"
    using a
    by (auto simp: get_instance_by_type_def HANDLERS_eq FileExportManager_init_def
        TemplateExportManager_init_def
        split: if_splits prod.splits res.splits option.splits dest!: DiskExportManager_init_Ok)
  show "(\<exists>sa info. kind m = TemplateExportManager sa info) = (t = ''template'')"
    using a
    by (auto simp: get_instance_by_type_def HANDLERS_eq FileExportManager_init_def
        TemplateExportManager_init_def
        split: if_splits prod.splits res.splits option.splits dest!: DiskExportManager_init_Ok)
qed


theorem variant_resolution_witness:
  "get_instance_by_type ex_env ''/out'' (ex_disk ''/work/disk.qcow2'' ''cdrom'' ''qcow2'') False
      Map.empty ex_world =
     (Raise (LagoUserException ''Export is not supported for disk type cdrom''), ex_world) \<and>
   get_instance_by_type ex_env ''/out'' (ex_disk ''/work/disk.qcow2'' ''file'' ''qcow2'') False
      Map.empty ex_world =
     (Ok \<lparr>src = ''/work/disk.qcow2'', name = ''disk.qcow2'', dst = ''/out/disk.qcow2'',
          dist_type = ''file'', disk = ex_disk ''/work/disk.qcow2'' ''file'' ''qcow2'',
          exported_metadata = 1, do_compress = False, kind = FileExportManager\<rparr>,
      \<lparr>fs = ex_fs, heap = [ex_metadata, ex_metadata], trace = []\<rparr>) \<and>
   get_instance_by_type ex_env ''/out'' (ex_disk ''/work/disk.qcow2'' ''empty'' ''qcow2'') True
      Map.empty ex_world =
     (Ok \<lparr>src = ''/work/disk.qcow2'', name = ''disk.qcow2'', dst = ''/out/disk.qcow2'',
          dist_type = ''empty'', disk = ex_disk ''/work/disk.qcow2'' ''empty'' ''qcow2'',
          exported_metadata = 1, do_compress = True, kind = FileExportManager\<rparr>,
      \<lparr>fs = ex_fs, heap = [ex_metadata, ex_metadata], trace = []\<rparr>) \<and>
   get_instance_by_type ex_env ''/out'' (ex_disk ''/work/layer2.qcow2'' ''template'' ''qcow2'') False
      [''standalone'' \<mapsto> True] ex_world =
     (Ok \<lparr>src = ''/work/layer2.qcow2'', name = ''layer2.qcow2'', dst = ''/out/layer2.qcow2'',
          dist_type = ''template'', disk = ex_disk ''/work/layer2.qcow2'' ''template'' ''qcow2'',
          exported_metadata = 1, do_compress = False,
          kind = TemplateExportManager True (ex_chain ''/work/layer2.qcow2'')\<rparr>,
      \<lparr>fs = ex_fs, heap = [ex_metadata, ex_metadata],
        trace = [EvQemuInfo ''/work/layer2.qcow2'' True]\<rparr>) \<and>
   fst (get_instance_by_type ex_env ''/out'' (ex_disk ''/work/gone.qcow2'' ''template'' ''qcow2'')
          False [''standalone'' \<mapsto> True] ex_world) = Raise (ToolError ''qemu-img'')"
proof -
  have env: "expandvars ex_env = (\<lambda>p. p)"
    "x_get_qemu_info ex_env ''/work/layer2.qcow2'' True ex_fs = Ok (ex_chain ''/work/layer2.qcow2'')"
    "x_get_qemu_info ex_env ''/work/gone.qcow2'' True ex_fs = Raise (ToolError ''qemu-img'')"
    by (simp_all add: ex_env_def ex_fs_def)
  have names: "basename ''/work/disk.qcow2'' = ''disk.qcow2''"
    "basename ''/work/layer2.qcow2'' = ''layer2.qcow2''"
    "path_join ''/out'' ''disk.qcow2'' = ''/out/disk.qcow2''"
    "path_join ''/out'' ''layer2.qcow2'' = ''/out/layer2.qcow2''"
    by (simp_all add: basename_def path_join_def)
  have w: "ex_world\<lparr>heap := heap ex_world @ [heap ex_world ! 0]\<rparr> =
      \<lparr>fs = ex_fs, heap = [ex_metadata, ex_metadata], trace = []\<rparr>"
    "ex_world\<lparr>heap := heap ex_world @ [heap ex_world ! 0],
         trace := trace ex_world @ [EvQemuInfo ''/work/layer2.qcow2'' True]\<rparr> =
      \<lparr>fs = ex_fs, heap = [ex_metadata, ex_metadata],
        trace = [EvQemuInfo ''/work/layer2.qcow2'' True]\<rparr>"
    by (simp_all add: ex_world_def)
  have c1: "get_instance_by_type ex_env ''/out'' (ex_disk ''/work/disk.qcow2'' ''cdrom'' ''qcow2'')
      False Map.empty ex_world =
     (Raise (LagoUserException ''Export is not supported for disk type cdrom''), ex_world)"
    using variant_resolution[where t = "''cdrom''" and E = ex_env and dst_arg = "''/out''"
      and dsk = "ex_disk ''/work/disk.qcow2'' ''cdrom'' ''qcow2''" and c = False
      and kwargs = Map.empty and w = ex_world]
    by (simp add: ex_disk_sel)
  have c2: "get_instance_by_type ex_env ''/out'' (ex_disk ''/work/disk.qcow2'' ''file'' ''qcow2'')
      False Map.empty ex_world =
     (Ok \<lparr>src = ''/work/disk.qcow2'', name = ''disk.qcow2'', dst = ''/out/disk.qcow2'',
          dist_type = ''file'', disk = ex_disk ''/work/disk.qcow2'' ''file'' ''qcow2'',
          exported_metadata = 1, do_compress = False, kind = FileExportManager\<rparr>,
      \<lparr>fs = ex_fs, heap = [ex_metadata, ex_metadata], trace = []\<rparr>)"
    using variant_resolution[where t = "''file''" and E = ex_env and dst_arg = "''/out''"
      and dsk = "ex_disk ''/work/disk.qcow2'' ''file'' ''qcow2''" and c = False
      and kwargs = Map.empty and w = ex_world and p = "''/work/disk.qcow2''" and a = 0]
    by (simp add: ex_disk_sel env names w ex_world_sel)
  have c3: "get_instance_by_type ex_env ''/out'' (ex_disk ''/work/disk.qcow2'' ''empty'' ''qcow2'')
      True Map.empty ex_world =
     (Ok \<lparr>src = ''/work/disk.qcow2'', name = ''disk.qcow2'', dst = ''/out/disk.qcow2'',
          dist_type = ''empty'', disk = ex_disk ''/work/disk.qcow2'' ''empty'' ''qcow2'',
          exported_metadata = 1, do_compress = True, kind = FileExportManager\<rparr>,
      \<lparr>fs = ex_fs, heap = [ex_metadata, ex_metadata], trace = []\<rparr>)"
    using variant_resolution[where t = "''empty''" and E = ex_env and dst_arg = "''/out''"
      and dsk = "ex_disk ''/work/disk.qcow2'' ''empty'' ''qcow2''" and c = True
      and kwargs = Map.empty and w = ex_world and p = "''/work/disk.qcow2''" and a = 0]
    by (simp add: ex_disk_sel env names w ex_world_sel)
  have c4: "get_instance_by_type ex_env ''/out'' (ex_disk ''/work/layer2.qcow2'' ''template'' ''qcow2'')
      False [''standalone'' \<mapsto> True] ex_world =
     (Ok \<lparr>src = ''/work/layer2.qcow2'', name = ''layer2.qcow2'', dst = ''/out/layer2.qcow2'',
          dist_type = ''template'', disk = ex_disk ''/work/layer2.qcow2'' ''template'' ''qcow2'',
          exported_metadata = 1, do_compress = False,
          kind = TemplateExportManager True (ex_chain ''/work/layer2.qcow2'')\<rparr>,
      \<lparr>fs = ex_fs, heap = [ex_metadata, ex_metadata],
        trace = [EvQemuInfo ''/work/layer2.qcow2'' True]\<rparr>)"
    using variant_resolution[where t = "''template''" and E = ex_env and dst_arg = "''/out''"
      and dsk = "ex_disk ''/work/layer2.qcow2'' ''template'' ''qcow2''" and c = False
      and kwargs = "[''standalone'' \<mapsto> True]" and w = ex_world
      and p = "''/work/layer2.qcow2''" and a = 0 and sa = True
      and info = "ex_chain ''/work/layer2.qcow2''"]
    by (simp add: ex_disk_sel env names w ex_world_sel)
  have c5: "fst (get_instance_by_type ex_env ''/out''
          (ex_disk ''/work/gone.qcow2'' ''template'' ''qcow2'')
          False [''standalone'' \<mapsto> True] ex_world) = Raise (ToolError ''qemu-img'')"
    using variant_resolution[where t = "''template''" and E = ex_env and dst_arg = "''/out''"
      and dsk = "ex_disk ''/work/gone.qcow2'' ''template'' ''qcow2''" and c = False
      and kwargs = "[''standalone'' \<mapsto> True]" and w = ex_world
      and p = "''/work/gone.qcow2''" and a = 0 and sa = True
      and e = "ToolError ''qemu-img''"]
    by (simp add: ex_disk_sel env ex_world_sel)
  show ?thesis by (intro conjI) (rule c1 c2 c3 c4 c5)+
qed

text \<open>
  C9. A template disk without the keyword \<^verbatim>\<open>standalone\<close>: construction raises
  \<^verbatim>\<open>KeyError\<close> (for \<^verbatim>\<open>standalone\<close> whenever the disk has its \<^verbatim>\<open>path\<close> and
  \<^verbatim>\<open>metadata\<close>), never \<^verbatim>\<open>LagoUserException\<close>; no external call was made, so
  \<^verbatim>\<open>get_qemu_info\<close> did not run, and the file system is untouched. A \<^verbatim>\<open>file\<close> or
  \<^verbatim>\<open>empty\<close> disk with \<^verbatim>\<open>path\<close> and \<^verbatim>\<open>metadata\<close> is constructed whatever the keywords.
\<close>

theorem template_needs_standalone:
  "(d_type dsk = Some ''template'' \<and> kwargs ''standalone'' = None \<longrightarrow>
      (\<exists>k. fst (get_instance_by_type E dst_arg dsk c kwargs w) = Raise (KeyError k) \<and>
           (d_path dsk \<noteq> None \<and> d_metadata dsk \<noteq> None \<longrightarrow> k = ''standalone'')) \<and>
      trace (snd (get_instance_by_type E dst_arg dsk c kwargs w)) = trace w \<and>
      fs (snd (get_instance_by_type E dst_arg dsk c kwargs w)) = fs w) \<and>
   ((d_type dsk = Some ''file'' \<or> d_type dsk = Some ''empty'') \<and>
      d_path dsk \<noteq> None \<and> d_metadata dsk \<noteq> None \<longrightarrow>
      (\<exists>m. fst (get_instance_by_type E dst_arg dsk c kwargs w) = Ok m))"
  by (auto simp: get_instance_by_type_def HANDLERS_eq FileExportManager_init_def
        TemplateExportManager_init_def DiskExportManager_init_def deepcopy_def Let_def
        split: option.splits)

theorem template_needs_standalone_witness:
  "fst (get_instance_by_type ex_env ''/out'' (ex_disk ''/work/layer2.qcow2'' ''template'' ''qcow2'')
          False Map.empty ex_world) = Raise (KeyError ''standalone'') \<and>
   trace (snd (get_instance_by_type ex_env ''/out''
          (ex_disk ''/work/layer2.qcow2'' ''template'' ''qcow2'') False Map.empty ex_world)) = [] \<and>
   fst (get_instance_by_type ex_env ''/out'' (ex_disk ''/work/disk.qcow2'' ''file'' ''qcow2'')
          False Map.empty ex_world) = Ok (ex_file_mgr ''qcow2'' False)"
  using template_needs_standalone[where E = ex_env and dst_arg = "''/out''"
      and dsk = "ex_disk ''/work/layer2.qcow2'' ''template'' ''qcow2''" and c = False
      and kwargs = Map.empty and w = ex_world]
    template_needs_standalone[where E = ex_env and dst_arg = "''/out''"
      and dsk = "ex_disk ''/work/disk.qcow2'' ''file'' ''qcow2''" and c = False
      and kwargs = Map.empty and w = ex_world]
  by (auto simp: ex_file_job ex_disk_sel ex_world_sel)

section \<open>The order of the steps\<close>

text \<open>
  C4. The external calls of an export that succeeds are, in this order: \<^verbatim>\<open>cp\<close>,
  \<^verbatim>\<open>sparse\<close>, at most one \<^verbatim>\<open>qemu_rebase\<close> (none for a file manager), opening the
  \<^verbatim>\<open>.hash\<close> file, \<^verbatim>\<open>get_hash\<close>, writing the digest, \<^verbatim>\<open>os.stat\<close>, opening and writing
  the \<^verbatim>\<open>.metadata\<close> file and, when compression is on, \<^verbatim>\<open>compress\<close> and \<^verbatim>\<open>os.unlink\<close>. So
  the checksum is computed after the sparsify and the rebase, and the metadata is written
  before the compression runs; no successful export has another order.
\<close>

theorem export_step_order:
  assumes "export E m w = (Ok u, w')"
  shows "\<exists>fmt rb sha js.
     trace w' = trace w @ [EvCp (src m) (dst m), EvSparse (dst m) fmt] @ rb @
        [EvOpenW (dst m @ ''.hash''), EvGetHash (dst m) ''sha1'', EvWrite (dst m @ ''.hash'') sha,
         EvStat (dst m),
         EvOpenW (dst m @ ''.metadata''), EvWrite (dst m @ ''.metadata'') js] @
        (if do_compress m then [EvCompress (dst m) 16777216, EvUnlink (dst m)] else []) \<and>
     (rb = [] \<or> (kind m \<noteq> FileExportManager \<and> (\<exists>b s. rb = [EvQemuRebase (dst m) b s])))"
proof -
  from assms obtain w1 w2 w3 w4 w5 w6 where
    s1: "copy E m w = (Ok (), w1)" and s2: "sparse E m w1 = (Ok (), w2)"
    and s3: "if kind m = FileExportManager then w3 = w2 else rebase E m w2 = (Ok (), w3)"
    and s4: "calc_sha E m ''sha1'' w3 = (Ok (), w4)"
    and s5: "update_lago_metadata E m w4 = (Ok (), w5)"
    and s6: "write_lago_metadata E m w5 = (Ok (), w6)"
    and s7: "compress E m w6 = (Ok (), w')"
    by (rule export_Ok)
  from copy_Ok[OF s1] have t1: "trace w1 = trace w @ [EvCp (src m) (dst m)]" by simp
  from sparse_Ok[OF s2] obtain fmt where t2: "trace w2 = trace w1 @ [EvSparse (dst m) fmt]"
    by blast
  have "\<exists>rb. trace w3 = trace w2 @ rb \<and>
      (rb = [] \<or> (kind m \<noteq> FileExportManager \<and> (\<exists>b s. rb = [EvQemuRebase (dst m) b s])))"
  proof (cases "kind m = FileExportManager")
    case True
    with s3 show ?thesis by simp
  next
    case False
    with s3 have "rebase E m w2 = (Ok (), w3)" by simp
    from rebase_Ok[OF this] False show ?thesis by auto
  qed
  then obtain rb where t3: "trace w3 = trace w2 @ rb"
    and rb: "rb = [] \<or> (kind m \<noteq> FileExportManager \<and> (\<exists>b s. rb = [EvQemuRebase (dst m) b s]))"
    by blast
  from calc_sha_Ok[OF s4] obtain sha where
    t4: "trace w4 = trace w3 @ [EvOpenW (dst m @ ''.hash''), EvGetHash (dst m) ''sha1'',
                             EvWrite (dst m @ ''.hash'') sha]" by blast
  from update_any_trace[OF s5] have t5: "trace w5 = trace w4 @ [EvStat (dst m)]" by simp
  from write_Ok[OF s6] obtain js where
    t6: "trace w6 = trace w5 @ [EvOpenW (dst m @ ''.metadata''), EvWrite (dst m @ ''.metadata'') js]"
    by blast
  from compress_Ok[OF s7] have
    t7: "trace w' = trace w6 @
          (if do_compress m then [EvCompress (dst m) 16777216, EvUnlink (dst m)] else [])"
    by (auto split: if_splits)
  have "trace w' = trace w @ [EvCp (src m) (dst m), EvSparse (dst m) fmt] @ rb @
        [EvOpenW (dst m @ ''.hash''), EvGetHash (dst m) ''sha1'', EvWrite (dst m @ ''.hash'') sha,
         EvStat (dst m),
         EvOpenW (dst m @ ''.metadata''), EvWrite (dst m @ ''.metadata'') js] @
        (if do_compress m then [EvCompress (dst m) 16777216, EvUnlink (dst m)] else [])"
    by (simp add: t1 t2 t3 t4 t5 t6 t7)
  with rb show ?thesis by blast
qed

theorem export_step_order_witness:
  "export ex_env (ex_template_mgr ''layer2.qcow2'' False True) (ex_world2 ''layer2.qcow2'') =
     (Ok (), snd (export ex_env (ex_template_mgr ''layer2.qcow2'' False True)
                    (ex_world2 ''layer2.qcow2''))) \<and>
   (\<exists>fmt rb sha js.
      trace (snd (export ex_env (ex_template_mgr ''layer2.qcow2'' False True)
                    (ex_world2 ''layer2.qcow2''))) =
        [EvQemuInfo ''/work/layer2.qcow2'' True,
         EvCp ''/work/layer2.qcow2'' ''/out/layer2.qcow2'', EvSparse ''/out/layer2.qcow2'' fmt] @ rb @
        [EvOpenW ''/out/layer2.qcow2.hash'', EvGetHash ''/out/layer2.qcow2'' ''sha1'',
         EvWrite ''/out/layer2.qcow2.hash'' sha, EvStat ''/out/layer2.qcow2'',
         EvOpenW ''/out/layer2.qcow2.metadata'', EvWrite ''/out/layer2.qcow2.metadata'' js,
         EvCompress ''/out/layer2.qcow2'' 16777216, EvUnlink ''/out/layer2.qcow2''] \<and>
      (rb = [] \<or> (\<exists>b s. rb = [EvQemuRebase ''/out/layer2.qcow2'' b s])))"
proof -
  have run: "export ex_env (ex_template_mgr ''layer2.qcow2'' False True) (ex_world2 ''layer2.qcow2'') =
     (Ok (), snd (export ex_env (ex_template_mgr ''layer2.qcow2'' False True)
                    (ex_world2 ''layer2.qcow2'')))"
    by (rule export_collapse) (rule ex_run_layer2)
  from export_step_order[OF run] show ?thesis
    using run by (auto simp: ex_template_mgr_def ex_world_sel)
qed

section \<open>The sidecar files\<close>

text \<open>
  C5. After an export that succeeds, let \<open>w3\<close> be the world before the checksum step and
  \<open>w6\<close> the world before the compression. The digest \<open>sha\<close> is what \<^verbatim>\<open>get_hash\<close> returned
  for the destination file in \<open>w3\<close> (with the \<^verbatim>\<open>.hash\<close> file just opened); the destination
  file is the same in \<open>w3\<close> and \<open>w6\<close>; the \<^verbatim>\<open>.hash\<close> file holds \<open>sha\<close>; the \<^verbatim>\<open>.metadata\<close>
  file holds the JSON text of the exported metadata, which maps \<^verbatim>\<open>sha1\<close> to \<open>sha\<close>. Without
  compression \<open>w6\<close> is the final world; with it, both files are still as written whenever
  the compressor leaves the two paths alone.
\<close>

theorem checksum_round_trip:
  assumes "export E m w = (Ok u, w')"
    and "exported_metadata m < length (heap w)"
  shows "\<exists>w3 w6 sha.
     run_steps (steps_before_checksum E m) w = (Ok (), w3) \<and>
     x_get_hash E (dst m) ''sha1'' ((fs w3)(dst m @ ''.hash'' \<mapsto> File [])) = Ok sha \<and>
     run_steps (steps_before_compress E m) w = (Ok (), w6) \<and>
     compress E m w6 = (Ok (), w') \<and>
     fs w6 (dst m) = fs w3 (dst m) \<and>
     fs w6 (dst m @ ''.hash'') = Some (File sha) \<and>
     fs w6 (dst m @ ''.metadata'') = Some (File (json_dumps E (heap w6 ! exported_metadata m))) \<and>
     (heap w6 ! exported_metadata m) ''sha1'' = Some (JStr sha) \<and>
     (if do_compress m then heap w' = heap w6 else w' = w6) \<and>
     ((\<forall>f f'. x_compress E (dst m) 16777216 f = (Ok (), f') \<longrightarrow>
          f' (dst m @ ''.hash'') = f (dst m @ ''.hash'') \<and>
          f' (dst m @ ''.metadata'') = f (dst m @ ''.metadata'')) \<longrightarrow>
      fs w' (dst m @ ''.hash'') = Some (File sha) \<and>
      fs w' (dst m @ ''.metadata'') = Some (File (json_dumps E (heap w' ! exported_metadata m))))"
proof -
  let ?a = "exported_metadata m"
  from assms(1) obtain w3 w4 w5 w6 where
    pre: "run_steps (steps_before_checksum E m) w = (Ok (), w3)"
    and h3: "heap w3 = heap w"
    and s4: "calc_sha E m ''sha1'' w3 = (Ok (), w4)"
    and s5: "update_lago_metadata E m w4 = (Ok (), w5)"
    and s6: "write_lago_metadata E m w5 = (Ok (), w6)"
    and all6: "run_steps (steps_before_compress E m) w = (Ok (), w6)"
    and s7: "compress E m w6 = (Ok (), w')"
    by (rule export_Ok_states)
  from calc_sha_Ok[OF s4] obtain sha where
    sha: "x_get_hash E (dst m) ''sha1'' ((fs w3)(dst m @ ''.hash'' \<mapsto> File [])) = Ok sha"
    and f4: "fs w4 = (fs w3)(dst m @ ''.hash'' \<mapsto> File sha)"
    and h4: "heap w4 = (heap w3)[?a := (heap w3 ! ?a)(''sha1'' \<mapsto> JStr sha)]"
    by blast
  have len4: "?a < length (heap w4)" using assms(2) h3 h4 by simp
  from update_any_Ok[OF s5 len4] obtain d where
    f5: "fs w5 = fs w4" and h5: "heap w5 = (heap w4)[?a := d]"
    and keep: "\<forall>k. k \<notin> {''size'', ''name'', ''version'', ''base''} \<longrightarrow> d k = (heap w4 ! ?a) k"
    by blast
  from write_Ok[OF s6] have
    f6: "fs w6 = (fs w5)(dst m @ ''.metadata'' \<mapsto> File (json_dumps E (heap w5 ! ?a)))"
    and h6: "heap w6 = heap w5" by simp_all
  have d: "heap w6 ! ?a = d" using len4 h5 h6 by simp
  have "d ''sha1'' = (heap w4 ! ?a) ''sha1''" using keep by simp
  also have "\<dots> = Some (JStr sha)" using assms(2) h3 h4 by simp
  finally have dsha: "d ''sha1'' = Some (JStr sha)" .
  have "fs w6 (dst m) = fs w3 (dst m)" by (simp add: f6 f5 f4)
  moreover have "fs w6 (dst m @ ''.hash'') = Some (File sha)" by (simp add: f6 f5 f4)
  moreover have "fs w6 (dst m @ ''.metadata'') = Some (File (json_dumps E (heap w6 ! ?a)))"
    by (simp add: f6 h6)
  moreover have c: "if do_compress m then heap w' = heap w6 else w' = w6"
    using compress_Ok[OF s7] by (simp split: if_splits)
  moreover have "fs w' (dst m @ ''.hash'') = fs w6 (dst m @ ''.hash'') \<and>
      fs w' (dst m @ ''.metadata'') = fs w6 (dst m @ ''.metadata'')"
    if frame: "\<forall>f f'. x_compress E (dst m) 16777216 f = (Ok (), f') \<longrightarrow>
          f' (dst m @ ''.hash'') = f (dst m @ ''.hash'') \<and>
          f' (dst m @ ''.metadata'') = f (dst m @ ''.metadata'')"
  proof (cases "do_compress m")
    case False
    with c show ?thesis by simp
  next
    case True
    with compress_Ok[OF s7] obtain f where
      "x_compress E (dst m) 16777216 (fs w6) = (Ok (), f)" "fs w' = f(dst m := None)"
      by auto
    with frame show ?thesis by (simp add: sidecar_paths)
  qed
  moreover have "heap w' = heap w6" using c by (auto split: if_splits)
  ultimately show ?thesis using pre sha all6 s7 d dsha by auto
qed

theorem checksum_round_trip_witness:
  "export ex_env (ex_file_mgr ''qcow2'' True) ex_world1 =
     (Ok (), snd (export ex_env (ex_file_mgr ''qcow2'' True) ex_world1)) \<and>
   exported_metadata (ex_file_mgr ''qcow2'' True) < length (heap ex_world1) \<and>
   (\<exists>sha. fs (snd (export ex_env (ex_file_mgr ''qcow2'' True) ex_world1)) ''/out/disk.qcow2.hash'' =
            Some (File sha) \<and>
          fs (snd (export ex_env (ex_file_mgr ''qcow2'' True) ex_world1))
             ''/out/disk.qcow2.metadata'' =
            Some (File (ex_dumps (heap (snd (export ex_env (ex_file_mgr ''qcow2'' True) ex_world1)) ! 1))) \<and>
          (heap (snd (export ex_env (ex_file_mgr ''qcow2'' True) ex_world1)) ! 1) ''sha1'' =
            Some (JStr sha))"
proof -
  let ?m = "ex_file_mgr ''qcow2'' True"
  have run: "export ex_env ?m ex_world1 = (Ok (), snd (export ex_env ?m ex_world1))"
    by (rule export_collapse) (rule ex_run_file)
  have len: "exported_metadata ?m < length (heap ex_world1)"
    by (simp add: ex_file_mgr_def ex_world_sel)
  have sel: "dst ?m = ''/out/disk.qcow2''" "exported_metadata ?m = 1" "do_compress ?m"
    "json_dumps ex_env = ex_dumps"
    by (simp_all add: ex_file_mgr_def ex_env_def)
  from checksum_round_trip[OF run len] ex_compress_frame[of "dst ?m" 16777216]
  obtain w6 :: world and sha where
    "heap (snd (export ex_env ?m ex_world1)) = heap w6"
    "(heap w6 ! 1) ''sha1'' = Some (JStr sha)"
    "fs (snd (export ex_env ?m ex_world1)) ''/out/disk.qcow2.hash'' = Some (File sha)"
    "fs (snd (export ex_env ?m ex_world1)) ''/out/disk.qcow2.metadata'' =
       Some (File (ex_dumps (heap (snd (export ex_env ?m ex_world1)) ! 1)))"
    by (auto simp: sel)
  then show ?thesis using run len by auto
qed

text \<open>
  C10. After an export that succeeds, the exported metadata written to the \<^verbatim>\<open>.metadata\<close>
  file maps \<^verbatim>\<open>size\<close> to the size of the destination file, \<^verbatim>\<open>name\<close> to the manager's
  name, \<^verbatim>\<open>version\<close> to the date stamp, \<^verbatim>\<open>sha1\<close> to the digest in the \<^verbatim>\<open>.hash\<close> file and,
  for a template manager, \<^verbatim>\<open>base\<close> to \<^verbatim>\<open>None\<close> or the base name of the source, whatever
  the copied source metadata held under these keys. Every other key keeps the value of
  the source metadata, and so does \<^verbatim>\<open>base\<close> for a file manager.
\<close>

theorem enrichment_overwrites:
  assumes "export E m w = (Ok u, w')"
    and "exported_metadata m < length (heap w)"
  shows "\<exists>w6 nd sha md.
     run_steps (steps_before_compress E m) w = (Ok (), w6) \<and>
     compress E m w6 = (Ok (), w') \<and>
     md = heap w6 ! exported_metadata m \<and> heap w' = heap w6 \<and>
     fs w6 (dst m @ ''.metadata'') = Some (File (json_dumps E md)) \<and>
     fs w6 (dst m) = Some nd \<and>
     fs w6 (dst m @ ''.hash'') = Some (File sha) \<and>
     md ''size'' = Some (JInt (st_size E nd)) \<and>
     md ''name'' = Some (JStr (name m)) \<and>
     md ''version'' = Some (JStr (strftime E ''%Y%m%d.0'')) \<and>
     md ''sha1'' = Some (JStr sha) \<and>
     (case kind m of
        FileExportManager \<Rightarrow> md ''base'' = (heap w ! exported_metadata m) ''base''
      | TemplateExportManager sa info \<Rightarrow>
          md ''base'' = Some (JStr (if sa then ''None'' else basename (src m)))) \<and>
     (\<forall>k. k \<notin> {''size'', ''name'', ''version'', ''sha1'', ''base''} \<longrightarrow>
          md k = (heap w ! exported_metadata m) k)"
proof -
  let ?a = "exported_metadata m"
  from assms(1) obtain w3 w4 w5 w6 where
    h3: "heap w3 = heap w"
    and s4: "calc_sha E m ''sha1'' w3 = (Ok (), w4)"
    and s5: "update_lago_metadata E m w4 = (Ok (), w5)"
    and s6: "write_lago_metadata E m w5 = (Ok (), w6)"
    and all6: "run_steps (steps_before_compress E m) w = (Ok (), w6)"
    and s7: "compress E m w6 = (Ok (), w')"
    by (rule export_Ok_states)
  from calc_sha_Ok[OF s4] obtain sha where
    f4: "fs w4 = (fs w3)(dst m @ ''.hash'' \<mapsto> File sha)"
    and h4: "heap w4 = (heap w3)[?a := (heap w3 ! ?a)(''sha1'' \<mapsto> JStr sha)]"
    by blast
  have len4: "?a < length (heap w4)" using assms(2) h3 h4 by simp
  have at4: "heap w4 ! ?a = (heap w ! ?a)(''sha1'' \<mapsto> JStr sha)"
    using assms(2) h3 h4 by simp
  from update_any_Ok[OF s5 len4] obtain nd d where
    nd: "fs w4 (dst m) = Some nd"
    and f5: "fs w5 = fs w4" and h5: "heap w5 = (heap w4)[?a := d]"
    and size: "d ''size'' = Some (JInt (st_size E nd))"
    and name: "d ''name'' = Some (JStr (name m))"
    and version: "d ''version'' = Some (JStr (strftime E ''%Y%m%d.0''))"
    and keep: "\<forall>k. k \<notin> {''size'', ''name'', ''version'', ''base''} \<longrightarrow> d k = (heap w4 ! ?a) k"
    and base: "case kind m of FileExportManager \<Rightarrow> d ''base'' = (heap w4 ! ?a) ''base''
          | TemplateExportManager sa info \<Rightarrow>
              d ''base'' = Some (JStr (if sa then ''None'' else basename (src m)))"
    by blast
  from write_Ok[OF s6] have
    f6: "fs w6 = (fs w5)(dst m @ ''.metadata'' \<mapsto> File (json_dumps E (heap w5 ! ?a)))"
    and h6: "heap w6 = heap w5" by simp_all
  have d: "heap w6 ! ?a = d" using len4 h5 h6 by simp
  have "d ''sha1'' = (heap w4 ! ?a) ''sha1''" using keep by simp
  then have sha1: "d ''sha1'' = Some (JStr sha)" by (simp add: at4)
  have base': "case kind m of
        FileExportManager \<Rightarrow> d ''base'' = (heap w ! ?a) ''base''
      | TemplateExportManager sa info \<Rightarrow>
          d ''base'' = Some (JStr (if sa then ''None'' else basename (src m)))"
    using base at4 by (simp split: mkind.splits)
  have rest: "\<forall>k. k \<notin> {''size'', ''name'', ''version'', ''sha1'', ''base''} \<longrightarrow>
          d k = (heap w ! ?a) k"
  proof (intro allI impI)
    fix k :: string
    assume k: "k \<notin> {''size'', ''name'', ''version'', ''sha1'', ''base''}"
    then have "k \<notin> {''size'', ''name'', ''version'', ''base''}" by blast
    with keep have "d k = (heap w4 ! ?a) k" by blast
    moreover from k have "k \<noteq> ''sha1''" by blast
    ultimately show "d k = (heap w ! ?a) k" by (simp add: at4)
  qed
  have md: "fs w6 (dst m @ ''.metadata'') = Some (File (json_dumps E d))"
    using d by (simp add: f6 h6)
  have art: "fs w6 (dst m) = Some nd" using nd by (simp add: f6 f5)
  have hash: "fs w6 (dst m @ ''.hash'') = Some (File sha)" by (simp add: f6 f5 f4)
  have h': "heap w' = heap w6" using compress_Ok[OF s7] by (auto split: if_splits)
  show ?thesis
    apply (rule exI[of _ w6], rule exI[of _ nd], rule exI[of _ sha], rule exI[of _ d])
    apply (intro conjI)
    apply (rule all6, rule s7, rule d[symmetric], rule h', rule md, rule art, rule hash,
           rule size, rule name, rule version, rule sha1, rule base', rule rest)
    done
qed

theorem enrichment_overwrites_witness:
  "export ex_env (ex_file_mgr ''qcow2'' False) ex_world1 =
     (Ok (), snd (export ex_env (ex_file_mgr ''qcow2'' False) ex_world1)) \<and>
   exported_metadata (ex_file_mgr ''qcow2'' False) < length (heap ex_world1) \<and>
   (heap ex_world1 ! 1) ''name'' = Some (JStr ''old-name'') \<and>
   (heap ex_world1 ! 1) ''sha1'' = Some (JStr ''old-sha'') \<and>
   (\<exists>nd sha.
      fs (snd (export ex_env (ex_file_mgr ''qcow2'' False) ex_world1)) ''/out/disk.qcow2.metadata'' =
        Some (File (ex_dumps (heap (snd (export ex_env (ex_file_mgr ''qcow2'' False) ex_world1)) ! 1))) \<and>
      fs (snd (export ex_env (ex_file_mgr ''qcow2'' False) ex_world1)) ''/out/disk.qcow2'' = Some nd \<and>
      fs (snd (export ex_env (ex_file_mgr ''qcow2'' False) ex_world1)) ''/out/disk.qcow2.hash'' =
        Some (File sha) \<and>
      (heap (snd (export ex_env (ex_file_mgr ''qcow2'' False) ex_world1)) ! 1) ''size'' =
        Some (JInt (st_size ex_env nd)) \<and>
      (heap (snd (export ex_env (ex_file_mgr ''qcow2'' False) ex_world1)) ! 1) ''name'' =
        Some (JStr ''disk.qcow2'') \<and>
      (heap (snd (export ex_env (ex_file_mgr ''qcow2'' False) ex_world1)) ! 1) ''version'' =
        Some (JStr ''20240101.0'') \<and>
      (heap (snd (export ex_env (ex_file_mgr ''qcow2'' False) ex_world1)) ! 1) ''sha1'' =
        Some (JStr sha) \<and>
      (heap (snd (export ex_env (ex_file_mgr ''qcow2'' False) ex_world1)) ! 1) ''arch'' =
        Some (JStr ''x86_64''))"
proof -
  let ?m = "ex_file_mgr ''qcow2'' False"
  let ?w' = "snd (export ex_env ?m ex_world1)"
  have run: "export ex_env ?m ex_world1 = (Ok (), ?w')"
    by (rule export_collapse) (rule ex_run_file)
  have len: "exported_metadata ?m < length (heap ex_world1)"
    by (simp add: ex_file_mgr_def ex_world_sel)
  have sel: "dst ?m = ''/out/disk.qcow2''" "exported_metadata ?m = 1" "\<not> do_compress ?m"
    "json_dumps ex_env = ex_dumps" "name ?m = ''disk.qcow2''"
    "strftime ex_env ''%Y%m%d.0'' = ''20240101.0''" "kind ?m = FileExportManager"
    by (simp_all add: ex_file_mgr_def ex_env_def)
  have old: "(heap ex_world1 ! 1) ''name'' = Some (JStr ''old-name'')"
    "(heap ex_world1 ! 1) ''sha1'' = Some (JStr ''old-sha'')"
    "(heap ex_world1 ! 1) ''arch'' = Some (JStr ''x86_64'')"
    by (simp_all add: ex_world_sel ex_metadata_def)
  from enrichment_overwrites[OF run len]
  obtain w6 :: world and nd sha md where
    c: "compress ex_env ?m w6 = (Ok (), ?w')"
    and md: "md = heap w6 ! 1"
    and f: "fs w6 ''/out/disk.qcow2.metadata'' = Some (File (ex_dumps md))"
      "fs w6 ''/out/disk.qcow2'' = Some nd" "fs w6 ''/out/disk.qcow2.hash'' = Some (File sha)"
    and k: "md ''size'' = Some (JInt (st_size ex_env nd))" "md ''name'' = Some (JStr ''disk.qcow2'')"
      "md ''version'' = Some (JStr ''20240101.0'')" "md ''sha1'' = Some (JStr sha)"
    and rest: "\<forall>k. k \<notin> {''size'', ''name'', ''version'', ''sha1'', ''base''} \<longrightarrow>
                 md k = (heap ex_world1 ! 1) k"
    by (auto simp: sel)
  from c have w': "?w' = w6" by (simp add: compress_def sel)
  from rest have "md ''arch'' = (heap ex_world1 ! 1) ''arch''" by simp
  with old have arch: "md ''arch'' = Some (JStr ''x86_64'')" by simp
  show ?thesis
    using run len old f k arch unfolding w' md by blast
qed

section \<open>The caller's disk\<close>

text \<open>
  C6. \<^verbatim>\<open>get_instance_by_type\<close> leaves every object of the caller's heap as it was,
  whether it returns a manager or raises. The manager keeps the disk attributes it was
  given; its \<^verbatim>\<open>exported_metadata\<close> is a new object, a copy of the disk's metadata. An
  export by that manager, whether it succeeds or fails, ends with the caller's heap as it
  was before the construction, followed by the one copy: every write went to the copy.
\<close>

theorem source_disk_untouched:
  "take (length (heap w0)) (heap (snd (get_instance_by_type E dst_arg dsk c kwargs w0))) = heap w0 \<and>
   (get_instance_by_type E dst_arg dsk c kwargs w0 = (Ok m, w1) \<and> export E m w1 = (r, w2) \<longrightarrow>
      disk m = dsk \<and> exported_metadata m = length (heap w0) \<and>
      (\<exists>a. d_metadata dsk = Some a \<and> heap w1 = heap w0 @ [heap w0 ! a]) \<and>
      (\<exists>d. heap w2 = heap w0 @ [d]))"
proof (intro conjI impI)
  show "take (length (heap w0)) (heap (snd (get_instance_by_type E dst_arg dsk c kwargs w0))) = heap w0"
    by (rule get_instance_by_type_heap)
next
  assume a: "get_instance_by_type E dst_arg dsk c kwargs w0 = (Ok m, w1) \<and> export E m w1 = (r, w2)"
  then obtain a where a': "d_metadata dsk = Some a" "disk m = dsk"
    "exported_metadata m = length (heap w0)" "heap w1 = heap w0 @ [heap w0 ! a]"
    using get_instance_by_type_Ok by blast
  from a heap_export obtain d where "heap w2 = (heap w1)[exported_metadata m := d]"
    unfolding writes_only_def by blast
  then have w2: "heap w2 = heap w0 @ [d]" by (simp add: a')
  show "disk m = dsk" by (rule a')
  show "exported_metadata m = length (heap w0)" by (rule a')
  show "\<exists>a. d_metadata dsk = Some a \<and> heap w1 = heap w0 @ [heap w0 ! a]" using a' by blast
  show "\<exists>d. heap w2 = heap w0 @ [d]" using w2 by blast
qed


theorem source_disk_untouched_witness:
  "get_instance_by_type ex_env ''/out'' (ex_disk ''/work/disk.qcow2'' ''file'' ''qcow2'') False
      Map.empty ex_world = (Ok (ex_file_mgr ''qcow2'' False), ex_world1) \<and>
   export ex_env (ex_file_mgr ''qcow2'' False) ex_world1 =
     (Ok (), snd (export ex_env (ex_file_mgr ''qcow2'' False) ex_world1)) \<and>
   heap ex_world = [ex_metadata] \<and>
   exported_metadata (ex_file_mgr ''qcow2'' False) = 1 \<and>
   (\<exists>d. heap (snd (export ex_env (ex_file_mgr ''qcow2'' False) ex_world1)) = [ex_metadata, d])"
proof -
  have job: "get_instance_by_type ex_env ''/out'' (ex_disk ''/work/disk.qcow2'' ''file'' ''qcow2'')
      False Map.empty ex_world = (Ok (ex_file_mgr ''qcow2'' False), ex_world1)"
    by (rule ex_file_job)
  have run: "export ex_env (ex_file_mgr ''qcow2'' False) ex_world1 =
     (Ok (), snd (export ex_env (ex_file_mgr ''qcow2'' False) ex_world1))"
    by (rule export_collapse) (rule ex_run_file)
  from source_disk_untouched[where E = ex_env and dst_arg = "''/out''"
      and dsk = "ex_disk ''/work/disk.qcow2'' ''file'' ''qcow2''" and c = False
      and kwargs = Map.empty and ?w0.0 = ex_world and m = "ex_file_mgr ''qcow2'' False"
      and ?w1.0 = ex_world1 and r = "Ok ()"
      and ?w2.0 = "snd (export ex_env (ex_file_mgr ''qcow2'' False) ex_world1)"] job run
  show ?thesis by (auto simp: ex_world_sel)
qed

section \<open>Compression\<close>

text \<open>
  C7, as the code has it. Without the compress flag the compress step returns the world
  unchanged. With it, an export that succeeds ends with nothing at the destination path:
  the file system is what \<^verbatim>\<open>utils.compress\<close> left, in which the destination was a regular
  file, with that file unlinked. A compressed form is wherever the compressor wrote it,
  not at the destination path.
\<close>

theorem compress_unlinks_destination:
  "(\<not> do_compress m \<longrightarrow> compress E m w = (Ok (), w)) \<and>
   (do_compress m \<and> export E m w = (Ok u, w') \<longrightarrow>
      fs w' (dst m) = None \<and>
      (\<exists>w6 f b. run_steps (steps_before_compress E m) w = (Ok (), w6) \<and>
          x_compress E (dst m) 16777216 (fs w6) = (Ok (), f) \<and> f (dst m) = Some (File b) \<and>
          fs w' = f(dst m := None)))"
proof (intro conjI impI)
  assume "\<not> do_compress m"
  then show "compress E m w = (Ok (), w)" by (simp add: compress_def)
next
  assume a: "do_compress m \<and> export E m w = (Ok u, w')"
  then obtain w6 where all6: "run_steps (steps_before_compress E m) w = (Ok (), w6)"
    and s7: "compress E m w6 = (Ok (), w')"
    by (auto elim: export_Ok_states)
  from compress_Ok[OF s7] a obtain f b where
    f: "x_compress E (dst m) 16777216 (fs w6) = (Ok (), f)" "f (dst m) = Some (File b)"
       "fs w' = f(dst m := None)" by auto
  then show "fs w' (dst m) = None" by simp
  from all6 f show "\<exists>w6 f b. run_steps (steps_before_compress E m) w = (Ok (), w6) \<and>
          x_compress E (dst m) 16777216 (fs w6) = (Ok (), f) \<and> f (dst m) = Some (File b) \<and>
          fs w' = f(dst m := None)" by blast
qed


theorem compress_unlinks_destination_witness:
  "compress ex_env (ex_file_mgr ''qcow2'' False) ex_world1 = (Ok (), ex_world1) \<and>
   do_compress (ex_file_mgr ''qcow2'' True) \<and>
   export ex_env (ex_file_mgr ''qcow2'' True) ex_world1 =
     (Ok (), snd (export ex_env (ex_file_mgr ''qcow2'' True) ex_world1)) \<and>
   fs (snd (export ex_env (ex_file_mgr ''qcow2'' True) ex_world1)) ''/out/disk.qcow2'' = None"
proof -
  have run: "export ex_env (ex_file_mgr ''qcow2'' True) ex_world1 =
     (Ok (), snd (export ex_env (ex_file_mgr ''qcow2'' True) ex_world1))"
    by (rule export_collapse) (rule ex_run_file)
  have sel: "\<not> do_compress (ex_file_mgr ''qcow2'' False)" "do_compress (ex_file_mgr ''qcow2'' True)"
    "dst (ex_file_mgr ''qcow2'' True) = ''/out/disk.qcow2''"
    by (simp_all add: ex_file_mgr_def)
  from compress_unlinks_destination[where m = "ex_file_mgr ''qcow2'' False" and E = ex_env
      and w = ex_world1]
    compress_unlinks_destination[where m = "ex_file_mgr ''qcow2'' True" and E = ex_env
      and w = ex_world1 and u = "()"
      and w' = "snd (export ex_env (ex_file_mgr ''qcow2'' True) ex_world1)"] run sel
  show ?thesis by simp
qed

text \<open>
  The claim C7 as stated fails: an export with the compress flag succeeds and the
  destination path is empty afterwards; the compressor's output is at another path.
\<close>

theorem compressed_form_not_at_destination:
  "do_compress (ex_file_mgr ''qcow2'' True) \<and>
   dst (ex_file_mgr ''qcow2'' True) = ''/out/disk.qcow2'' \<and>
   fst (export ex_env (ex_file_mgr ''qcow2'' True) ex_world1) = Ok () \<and>
   fs (snd (export ex_env (ex_file_mgr ''qcow2'' True) ex_world1)) ''/out/disk.qcow2'' = None \<and>
   fs (snd (export ex_env (ex_file_mgr ''qcow2'' True) ex_world1)) ''/out/disk.qcow2.xz'' =
     Some (File ''xz:DATA'')"
  by (simp add: ex_run_file ex_run_file_compressed) (simp add: ex_file_mgr_def)

section \<open>Failure and rollback\<close>

text \<open>
  When an export fails, the cleanup runs once after the failing step, and the error is
  the error of that step. The cleanup removes the destination only when it is a directory.
\<close>

lemma export_failure_cleanup:
  assumes "export E m w = (Raise e, w')"
  shows "\<exists>w1. run_steps (export_steps E m) w = (Raise e, w1) \<and>
           trace w' = trace w1 @ [EvRmtree (dst m) True] \<and>
           (if fs w1 (rstrip_slash (dst m)) = Some Dir then fs w' (rstrip_slash (dst m)) = None
            else fs w' = fs w1)"
proof -
  from assms obtain w1 where r: "run_steps (export_steps E m) w = (Raise e, w1)"
    and w': "w' = snd (shutil_rmtree (dst m) True w1)"
    by (auto simp: export_Raise)
  have "trace w' = trace w1 @ [EvRmtree (dst m) True]"
    by (simp add: w' shutil_rmtree_def emit_def Let_def split: option.splits node.splits)
  moreover have "if fs w1 (rstrip_slash (dst m)) = Some Dir
      then fs w' (rstrip_slash (dst m)) = None else fs w' = fs w1"
    by (simp add: w' shutil_rmtree_def emit_def Let_def split: option.splits node.splits)
  ultimately show ?thesis using r by blast
qed

text \<open>
  C1 at a failing input. A file disk whose format \<^verbatim>\<open>virt-sparsify\<close> rejects: the copy
  has created the destination file, the sparsify step raises, the cleanup
  \<^verbatim>\<open>shutil.rmtree(dst, ignore_errors=True)\<close> runs and the error comes back unchanged, but
  the destination is a regular file and is still there afterwards.
\<close>

theorem rollback_leaves_destination_file:
  "get_instance_by_type ex_env ''/out'' (ex_disk ''/work/disk.qcow2'' ''file'' ''qcow3'') False
      Map.empty ex_world = (Ok (ex_file_mgr ''qcow3'' False), ex_world1) \<and>
   dst (ex_file_mgr ''qcow3'' False) = ''/out/disk.qcow2'' \<and>
   fs ex_world1 ''/out/disk.qcow2'' = None \<and>
   fst (export ex_env (ex_file_mgr ''qcow3'' False) ex_world1) = Raise (ToolError ''virt-sparsify'') \<and>
   trace (snd (export ex_env (ex_file_mgr ''qcow3'' False) ex_world1)) =
     [EvCp ''/work/disk.qcow2'' ''/out/disk.qcow2'', EvSparse ''/out/disk.qcow2'' ''qcow3'',
      EvRmtree ''/out/disk.qcow2'' True] \<and>
   fs (snd (export ex_env (ex_file_mgr ''qcow3'' False) ex_world1)) ''/out/disk.qcow2'' =
     Some (File ''DATA'')"
  by (simp add: ex_file_job ex_run_sparse_fails) (simp add: ex_file_mgr_def ex_world_sel ex_fs_def)

text \<open>
  C2, as the code has it. For a template manager that is not standalone and whose backing
  chain has more than two elements, the rebase step raises the \<^verbatim>\<open>LagoUserException\<close> for
  the layer depth and changes nothing: \<^verbatim>\<open>qemu_rebase\<close> is not called. The export reaches
  that step after the copy and the sparsify have run: when both succeed it ends with that
  exception, after the cleanup; when one of them raises, it ends with that error instead.
\<close>

theorem layer_depth_rejected_at_rebase:
  assumes "kind m = TemplateExportManager False info" and "2 < length info"
  shows "rebase E m w =
       (Raise (LagoUserException
          (''Layered export is currently supported for one '' @
           ''layer only.  You can try to use Standalone export.'')), w) \<and>
     (\<forall>w2. run_steps [copy E m, sparse E m] w = (Ok (), w2) \<longrightarrow>
        export E m w =
          (Raise (LagoUserException
             (''Layered export is currently supported for one '' @
              ''layer only.  You can try to use Standalone export.'')),
           snd (shutil_rmtree (dst m) True w2))) \<and>
     (\<forall>e w2. run_steps [copy E m, sparse E m] w = (Raise e, w2) \<longrightarrow>
        export E m w = (Raise e, snd (shutil_rmtree (dst m) True w2)))"
proof (intro conjI allI impI)
  show "rebase E m w =
       (Raise (LagoUserException
          (''Layered export is currently supported for one '' @
           ''layer only.  You can try to use Standalone export.'')), w)"
    using assms by (rule rebase_too_deep)
next
  fix w2
  assume ok: "run_steps [copy E m, sparse E m] w = (Ok (), w2)"
  have "run_steps (export_steps E m) w =
          (Raise (LagoUserException
             (''Layered export is currently supported for one '' @
              ''layer only.  You can try to use Standalone export.'')), w2)"
    unfolding template_steps_split[OF assms(1)] run_steps_append
    using ok rebase_too_deep[OF assms, of E w2] by simp
  then show "export E m w =
          (Raise (LagoUserException
             (''Layered export is currently supported for one '' @
              ''layer only.  You can try to use Standalone export.'')),
           snd (shutil_rmtree (dst m) True w2))"
    by (simp add: export_Raise)
next
  fix e w2
  assume bad: "run_steps [copy E m, sparse E m] w = (Raise e, w2)"
  have "run_steps (export_steps E m) w = (Raise e, w2)"
    unfolding template_steps_split[OF assms(1)] run_steps_append
    using bad by simp
  then show "export E m w = (Raise e, snd (shutil_rmtree (dst m) True w2))"
    by (simp add: export_Raise)
qed

theorem layer_depth_rejected_at_rebase_witness:
  "kind (ex_template_mgr ''layer3.qcow2'' False False) =
     TemplateExportManager False (ex_chain ''/work/layer3.qcow2'') \<and>
   2 < length (ex_chain ''/work/layer3.qcow2'') \<and>
   run_steps [copy ex_env (ex_template_mgr ''layer3.qcow2'' False False),
              sparse ex_env (ex_template_mgr ''layer3.qcow2'' False False)]
     (ex_world2 ''layer3.qcow2'') =
     (Ok (), snd (run_steps [copy ex_env (ex_template_mgr ''layer3.qcow2'' False False),
              sparse ex_env (ex_template_mgr ''layer3.qcow2'' False False)]
         (ex_world2 ''layer3.qcow2''))) \<and>
   export ex_env (ex_template_mgr ''layer3.qcow2'' False False) (ex_world2 ''layer3.qcow2'') =
     (Raise (LagoUserException
        ''Layered export is currently supported for one layer only.  You can try to use Standalone export.''),
      snd (shutil_rmtree ''/out/layer3.qcow2'' True
        (snd (run_steps [copy ex_env (ex_template_mgr ''layer3.qcow2'' False False),
              sparse ex_env (ex_template_mgr ''layer3.qcow2'' False False)]
         (ex_world2 ''layer3.qcow2'')))))"
proof -
  let ?m = "ex_template_mgr ''layer3.qcow2'' False False"
  let ?w = "ex_world2 ''layer3.qcow2''"
  have k: "kind ?m = TemplateExportManager False (ex_chain ''/work/layer3.qcow2'')"
    by (simp add: ex_template_mgr_def)
  have l: "2 < length (ex_chain ''/work/layer3.qcow2'')" by (simp add: ex_chain_def)
  have two: "run_steps [copy ex_env ?m, sparse ex_env ?m] ?w =
      (Ok (), snd (run_steps [copy ex_env ?m, sparse ex_env ?m] ?w))"
    using ex_layer3_two_steps by (metis prod.collapse)
  have d: "dst ?m = ''/out/layer3.qcow2''" by (simp add: ex_template_mgr_def)
  from layer_depth_rejected_at_rebase[OF k l, of ex_env ?w] two
  have "export ex_env ?m ?w =
     (Raise (LagoUserException
        (''Layered export is currently supported for one '' @
         ''layer only.  You can try to use Standalone export.'')),
      snd (shutil_rmtree (dst ?m) True (snd (run_steps [copy ex_env ?m, sparse ex_env ?m] ?w))))"
    by blast
  then show ?thesis using k l two by (simp add: d)
qed

text \<open>
  The claim C2 as stated fails: with a chain of three the export ends with the layer-depth
  exception, but \<^verbatim>\<open>cp\<close> and \<^verbatim>\<open>sparse\<close> have run before it, and the copied file is at the
  destination.
\<close>

theorem layer_depth_checked_after_copy:
  "get_instance_by_type ex_env ''/out'' (ex_disk ''/work/layer3.qcow2'' ''template'' ''qcow2'') False
      [''standalone'' \<mapsto> False] ex_world =
     (Ok (ex_template_mgr ''layer3.qcow2'' False False), ex_world2 ''layer3.qcow2'') \<and>
   length (ex_chain ''/work/layer3.qcow2'') = 3 \<and>
   fs (ex_world2 ''layer3.qcow2'') ''/out/layer3.qcow2'' = None \<and>
   fst (export ex_env (ex_template_mgr ''layer3.qcow2'' False False) (ex_world2 ''layer3.qcow2'')) =
     Raise (LagoUserException
       ''Layered export is currently supported for one layer only.  You can try to use Standalone export.'') \<and>
   trace (snd (export ex_env (ex_template_mgr ''layer3.qcow2'' False False)
                 (ex_world2 ''layer3.qcow2''))) =
     [EvQemuInfo ''/work/layer3.qcow2'' True,
      EvCp ''/work/layer3.qcow2'' ''/out/layer3.qcow2'',
      EvSparse ''/out/layer3.qcow2'' ''qcow2'',
      EvRmtree ''/out/layer3.qcow2'' True] \<and>
   fs (snd (export ex_env (ex_template_mgr ''layer3.qcow2'' False False)
              (ex_world2 ''layer3.qcow2''))) ''/out/layer3.qcow2'' = Some (File ''L3'')"
  by (simp add: ex_template_job_layer3 ex_run_layer3) (simp add: ex_chain_def ex_world_sel ex_fs_def)

section \<open>The rebase step\<close>




end
